theory Spec2Isabelle
  imports Complex_Main
begin

section \<open>Strings\<close>

text \<open>
  Python strings are modelled as \<open>string\<close>. The attribute values, button labels, URLs and
  patterns of the program are taken to be ASCII, so \<open>str.lower\<close> only moves \<open>A..Z\<close>.
\<close>

definition lower_char :: "char \<Rightarrow> char" where
  "lower_char c =
     (if 65 \<le> (of_char c :: nat) \<and> (of_char c :: nat) \<le> 90
      then char_of ((of_char c :: nat) + 32) else c)"

definition lower :: "string \<Rightarrow> string" where
  "lower s = map lower_char s"

fun starts_with :: "string \<Rightarrow> string \<Rightarrow> bool" where
  "starts_with s [] = True"
| "starts_with [] (p # ps) = False"
| "starts_with (c # cs) (p # ps) = (c = p \<and> starts_with cs ps)"

text \<open>\<open>py_in p s\<close> is Python's \<open>p in s\<close> on strings: \<open>p\<close> occurs in \<open>s\<close> as a substring.\<close>

fun py_in :: "string \<Rightarrow> string \<Rightarrow> bool" where
  "py_in p [] = (p = [])"
| "py_in p (c # cs) = (starts_with (c # cs) p \<or> py_in p cs)"

section \<open>Regular expressions\<close>

text \<open>
  The fragment of Python's \<open>re\<close> syntax that the pattern tables of the program use:
  literal characters, \<open>\d\<close>, \<open>\s\<close>, bracket sets, \<open>\b\<close>, \<open>^\<close>, \<open>$\<close>, concatenation, alternation,
  \<open>?\<close> on a group, and \<open>*\<close>, \<open>+\<close>, \<open>{n}\<close> on a single character class.
\<close>

datatype cls = Chr char | Digit | Space

datatype regex =
    Eps
  | One cls
  | AnyOf "cls list"
  | WordB
  | Bol
  | Eol
  | Cat regex regex
  | Alt regex regex
  | Opt regex
  | Star cls
  | Plus cls
  | Rep nat cls

definition is_digit :: "char \<Rightarrow> bool" where
  "is_digit c = (48 \<le> (of_char c :: nat) \<and> (of_char c :: nat) \<le> 57)"

definition is_space :: "char \<Rightarrow> bool" where
  "is_space c =
     ((9 \<le> (of_char c :: nat) \<and> (of_char c :: nat) \<le> 13) \<or>
      (28 \<le> (of_char c :: nat) \<and> (of_char c :: nat) \<le> 32))"

definition is_word :: "char \<Rightarrow> bool" where
  "is_word c =
     ((48 \<le> (of_char c :: nat) \<and> (of_char c :: nat) \<le> 57) \<or>
      (65 \<le> (of_char c :: nat) \<and> (of_char c :: nat) \<le> 90) \<or>
      (97 \<le> (of_char c :: nat) \<and> (of_char c :: nat) \<le> 122) \<or>
      (of_char c :: nat) = 95)"

text \<open>\<open>ic\<close> is the flag \<open>re.IGNORECASE\<close>.\<close>

fun cls_ok :: "bool \<Rightarrow> cls \<Rightarrow> char \<Rightarrow> bool" where
  "cls_ok ic (Chr c) d = (if ic then lower_char c = lower_char d else c = d)"
| "cls_ok ic Digit d = is_digit d"
| "cls_ok ic Space d = is_space d"

text \<open>
  A position in the subject string is the character before it (\<open>None\<close> at the start) and the
  rest of the string. Each function returns the positions at which a match that starts at
  the given position can end.
\<close>

type_synonym pos = "char option \<times> string"

definition word_before :: "pos \<Rightarrow> bool" where
  "word_before st = (case fst st of None \<Rightarrow> False | Some c \<Rightarrow> is_word c)"

definition word_after :: "pos \<Rightarrow> bool" where
  "word_after st = (case snd st of [] \<Rightarrow> False | c # cs \<Rightarrow> is_word c)"

fun star_ends :: "bool \<Rightarrow> cls \<Rightarrow> char option \<Rightarrow> string \<Rightarrow> pos list" where
  "star_ends ic k p [] = [(p, [])]"
| "star_ends ic k p (d # ds) =
     (p, d # ds) # (if cls_ok ic k d then star_ends ic k (Some d) ds else [])"

fun rep_ends :: "bool \<Rightarrow> nat \<Rightarrow> cls \<Rightarrow> char option \<Rightarrow> string \<Rightarrow> pos list" where
  "rep_ends ic 0 k p s = [(p, s)]"
| "rep_ends ic (Suc n) k p [] = []"
| "rep_ends ic (Suc n) k p (d # ds) =
     (if cls_ok ic k d then rep_ends ic n k (Some d) ds else [])"

fun rx_ends :: "bool \<Rightarrow> regex \<Rightarrow> pos \<Rightarrow> pos list" where
  "rx_ends ic Eps st = [st]"
| "rx_ends ic (One k) st =
     (case snd st of [] \<Rightarrow> [] | d # ds \<Rightarrow> if cls_ok ic k d then [(Some d, ds)] else [])"
| "rx_ends ic (AnyOf ks) st =
     (case snd st of [] \<Rightarrow> []
      | d # ds \<Rightarrow> if list_ex (\<lambda>k. cls_ok ic k d) ks then [(Some d, ds)] else [])"
| "rx_ends ic WordB st = (if word_before st \<noteq> word_after st then [st] else [])"
| "rx_ends ic Bol st = (if fst st = None then [st] else [])"
| "rx_ends ic Eol st = (if snd st = [] \<or> snd st = [CHR 0x0A] then [st] else [])"
| "rx_ends ic (Cat r1 r2) st = concat (map (rx_ends ic r2) (rx_ends ic r1 st))"
| "rx_ends ic (Alt r1 r2) st = rx_ends ic r1 st @ rx_ends ic r2 st"
| "rx_ends ic (Opt r) st = rx_ends ic r st @ [st]"
| "rx_ends ic (Star k) st = star_ends ic k (fst st) (snd st)"
| "rx_ends ic (Plus k) st =
     (case snd st of [] \<Rightarrow> []
      | d # ds \<Rightarrow> if cls_ok ic k d then star_ends ic k (Some d) ds else [])"
| "rx_ends ic (Rep n k) st = rep_ends ic n k (fst st) (snd st)"

fun search_from :: "bool \<Rightarrow> regex \<Rightarrow> char option \<Rightarrow> string \<Rightarrow> bool" where
  "search_from ic r p [] = (rx_ends ic r (p, []) \<noteq> [])"
| "search_from ic r p (c # cs) =
     (rx_ends ic r (p, c # cs) \<noteq> [] \<or> search_from ic r (Some c) cs)"

text \<open>\<open>re.search(pattern, s)\<close>, read as a truth value.\<close>

definition re_search :: "bool \<Rightarrow> regex \<Rightarrow> string \<Rightarrow> bool" where
  "re_search ic r s = search_from ic r None s"

fun lit :: "string \<Rightarrow> regex" where
  "lit [] = Eps"
| "lit (c # cs) = Cat (One (Chr c)) (lit cs)"

fun cat :: "regex list \<Rightarrow> regex" where
  "cat [] = Eps"
| "cat (r # rs) = Cat r (cat rs)"

text \<open>\<open>\bphrase\b\<close>\<close>

definition wb :: "string \<Rightarrow> regex" where
  "wb s = cat [WordB, lit s, WordB]"

section \<open>Data classes\<close>

datatype FieldType =
    EMAIL | PASSWORD | CONFIRM_PASSWORD | FIRST_NAME | LAST_NAME | FULL_NAME | PHONE
  | LOCATION | ADDRESS_LINE1 | ADDRESS_LINE2 | CITY | STATE | ZIP_CODE | COUNTRY
  | COMPANY | JOB_TITLE | YEARS_EXPERIENCE | SALARY | SCHOOL | DEGREE | FIELD_OF_STUDY
  | GRADUATION_DATE | LINKEDIN | PORTFOLIO | WEBSITE | COVER_LETTER_TEXT | RESUME_FILE
  | COVER_LETTER_FILE | TEXT_INPUT | SELECT | CHECKBOX | RADIO_BUTTON | TEXTAREA
  | SUBMIT_BUTTON | NEXT_BUTTON | UNKNOWN

text \<open>
  The attribute bundle built by \<open>_get_element_data\<close>: every key is always present and every
  value is a string (\<open>safe_get_attribute\<close> replaces a missing attribute by its default),
  apart from the boolean \<open>required\<close>.
\<close>

record element_data =
  tag :: string
  html_type :: string
  name :: string
  html_id :: string
  html_class :: string
  placeholder :: string
  aria_label :: string
  aria_labelledby :: string
  aria_describedby :: string
  role :: string
  autocomplete :: string
  required :: bool
  val :: string
  el_text :: string
  data_automation_id :: string
  selector :: string
  label :: string

text \<open>
  \<open>FormField\<close>. The live \<open>Locator\<close> is the index of the element in the scan; Python floats
  are idealised as exact rationals.
\<close>

record FormField =
  element :: nat
  field_type :: FieldType
  confidence :: rat
  ff_selector :: string
  label_text :: "string option"
  attributes :: element_data
  context_text :: "string option"
  element_type_html :: string

section \<open>Pattern tables and weights\<close>

definition email_patterns :: "(string \<times> regex list) list" where
  "email_patterns =
     [(''names'',
       [lit ''email'', cat [lit ''e'', Opt (lit ''-''), lit ''mail''],
        cat [lit ''user'', Opt (lit ''-''), lit ''name''], lit ''login'',
        lit ''userPrincipalName'']),
      (''labels'',
       [cat [lit ''email'', Star Space, lit ''address''],
        cat [lit ''e'', Opt (lit ''-''), lit ''mail''],
        cat [lit ''your'', Star Space, lit ''email''],
        cat [lit ''user'', Star Space, lit ''name''],
        cat [lit ''login'', Star Space, lit ''id'']]),
      (''placeholders'',
       [cat [lit ''enter'', Star Space, lit ''email''], lit ''email'', lit ''@'',
        lit ''example@company.com'']),
      (''types'',
       [cat [Bol, lit ''email'', Eol]]),
      (''autocompletes'',
       [lit ''email'', lit ''username'']),
      (''data-automation-ids'',
       [lit ''email'', lit ''username'', lit ''userid''])]"

definition password_patterns :: "(string \<times> regex list) list" where
  "password_patterns =
     [(''names'',
       [lit ''password'', cat [lit ''pass'', Opt (lit ''-''), lit ''word''], lit ''pwd'',
        lit ''userPass'', lit ''credentials.password'']),
      (''labels'',
       [lit ''password'', cat [lit ''pass'', Opt (lit ''-''), lit ''word''], lit ''pincode'']),
      (''placeholders'',
       [cat [lit ''enter'', Star Space, lit ''password''], lit ''password'']),
      (''types'',
       [cat [Bol, lit ''password'', Eol]]),
      (''autocompletes'',
       [lit ''current-password'', lit ''new-password'']),
      (''data-automation-ids'',
       [lit ''password''])]"

definition first_name_patterns :: "(string \<times> regex list) list" where
  "first_name_patterns =
     [(''names'',
       [cat [lit ''first'', Opt (lit ''-''), lit ''name''],
        cat [lit ''f'', Opt (lit ''-''), lit ''name''],
        cat [lit ''given'', Opt (lit ''-''), lit ''name''], lit ''forename'',
        lit ''firstName'', lit ''contact.firstName'']),
      (''labels'',
       [cat [lit ''first'', Star Space, lit ''name''],
        cat [lit ''given'', Star Space, lit ''name''], lit ''forename'']),
      (''placeholders'',
       [cat [lit ''first'', Star Space, lit ''name''],
        cat [lit ''given'', Star Space, lit ''name'']]),
      (''autocompletes'',
       [lit ''given-name'', lit ''fname''])]"

definition last_name_patterns :: "(string \<times> regex list) list" where
  "last_name_patterns =
     [(''names'',
       [cat [lit ''last'', Opt (lit ''-''), lit ''name''],
        cat [lit ''l'', Opt (lit ''-''), lit ''name''], lit ''surname'',
        cat [lit ''family'', Opt (lit ''-''), lit ''name''], lit ''lastName'',
        lit ''contact.lastName'']),
      (''labels'',
       [cat [lit ''last'', Star Space, lit ''name''], lit ''surname'',
        cat [lit ''family'', Star Space, lit ''name'']]),
      (''placeholders'',
       [cat [lit ''last'', Star Space, lit ''name''], lit ''surname'']),
      (''autocompletes'',
       [lit ''family-name'', lit ''lname''])]"

definition phone_patterns :: "(string \<times> regex list) list" where
  "phone_patterns =
     [(''names'',
       [lit ''phone'', lit ''mobile'', lit ''cell'', lit ''telephone'',
        cat [lit ''contact'', Opt (lit ''-''), lit ''number''], lit ''primaryPhone'']),
      (''labels'',
       [lit ''phone'', lit ''mobile'', lit ''telephone'',
        cat [lit ''contact'', Star Space, lit ''number''],
        cat [lit ''phone'', Star Space, lit ''number'']]),
      (''placeholders'',
       [lit ''phone'', lit ''mobile'',
        cat [Opt (lit ''(''), Rep 3 Digit, Opt (lit '')''), Opt (AnyOf [Chr CHR ''-'',
           Chr CHR ''.'', Space]), Rep 3 Digit, Opt (AnyOf [Chr CHR ''-'', Chr CHR ''.'',
           Space]), Rep 4 Digit], cat [lit ''phone'', Star Space, lit ''number'']]),
      (''types'',
       [cat [Bol, lit ''tel'', Eol]]),
      (''autocompletes'',
       [lit ''tel'', lit ''tel-national''])]"

definition company_patterns :: "(string \<times> regex list) list" where
  "company_patterns =
     [(''names'',
       [lit ''company'', lit ''employer'', lit ''organization'',
        cat [lit ''current'', Opt (lit ''-''), lit ''employer''], lit ''businessName'']),
      (''labels'',
       [lit ''company'', lit ''employer'', lit ''organization'',
        cat [lit ''current'', Star Space, lit ''employer''],
        cat [lit ''company'', Star Space, lit ''name'']]),
      (''placeholders'',
       [lit ''company'', lit ''employer'', cat [lit ''organization'', Star Space, lit ''name'']]),
      (''autocompletes'',
       [lit ''organization''])]"

definition job_title_patterns :: "(string \<times> regex list) list" where
  "job_title_patterns =
     [(''names'',
       [cat [lit ''job'', Opt (lit ''-''), lit ''title''], lit ''position'', lit ''role'',
        lit ''title'', lit ''currentPosition'']),
      (''labels'',
       [cat [lit ''job'', Star Space, lit ''title''], lit ''position'',
        cat [lit ''current'', Star Space, lit ''position''], lit ''role'',
        cat [lit ''desired'', Star Space, lit ''position'']]),
      (''placeholders'',
       [cat [lit ''job'', Star Space, lit ''title''], lit ''position'',
        cat [lit ''your'', Star Space, lit ''role'']]),
      (''autocompletes'',
       [lit ''organization-title''])]"

definition resume_file_patterns :: "(string \<times> regex list) list" where
  "resume_file_patterns =
     [(''names'',
       [lit ''resume'', lit ''cv'', lit ''curriculum'',
        cat [lit ''resume'', Opt (lit ''-''), lit ''upload''],
        cat [lit ''cv'', Opt (lit ''-''), lit ''upload''], lit ''attachment'']),
      (''labels'',
       [lit ''resume'', lit ''cv'', cat [lit ''upload'', Star Space, lit ''resume''],
        cat [lit ''attach'', Star Space, lit ''resume''],
        cat [lit ''curriculum'', Star Space, lit ''vitae'']]),
      (''types'',
       [cat [Bol, lit ''file'', Eol]]),
      (''data-automation-ids'',
       [lit ''resumeupload'', lit ''fileuploader'', lit ''attachCV''])]"

definition address_line1_patterns :: "(string \<times> regex list) list" where
  "address_line1_patterns =
     [(''names'',
       [cat [lit ''address'', Opt (Alt (lit ''1'') (lit ''Line1''))], lit ''street'',
        lit ''addr1'']),
      (''labels'',
       [cat [lit ''address'', Star Space, Opt (cat [lit ''line'', Star Space, lit ''1''])],
        cat [lit ''street'', Star Space, lit ''address'']]),
      (''placeholders'',
       [cat [lit ''street'', Star Space, lit ''address''],
        cat [lit ''address'', Star Space, lit ''line'', Star Space, lit ''1'']]),
      (''autocompletes'',
       [lit ''address-line1'', lit ''street-address''])]"

definition city_patterns :: "(string \<times> regex list) list" where
  "city_patterns =
     [(''names'',
       [lit ''city'', lit ''town'']),
      (''labels'',
       [lit ''city'', lit ''town'', lit ''suburb'']),
      (''placeholders'',
       [lit ''city'', lit ''town'']),
      (''autocompletes'',
       [lit ''address-level2'', lit ''city''])]"

definition state_patterns :: "(string \<times> regex list) list" where
  "state_patterns =
     [(''names'',
       [lit ''state'', lit ''province'', lit ''region'']),
      (''labels'',
       [lit ''state'', lit ''province'', lit ''region'']),
      (''placeholders'',
       [lit ''state'', lit ''province'']),
      (''autocompletes'',
       [lit ''address-level1'', lit ''state''])]"

definition zip_code_patterns :: "(string \<times> regex list) list" where
  "zip_code_patterns =
     [(''names'',
       [cat [lit ''zip'', Opt (cat [Opt (lit ''-''), lit ''code''])],
        cat [lit ''postal'', Opt (cat [Opt (lit ''-''), lit ''code''])], lit ''postcode'']),
      (''labels'',
       [lit ''zip'', cat [lit ''postal'', Star Space, lit ''code''],
        cat [lit ''post'', Star Space, lit ''code'']]),
      (''placeholders'',
       [lit ''zip'', cat [lit ''postal'', Star Space, lit ''code''],
        cat [Rep 5 Digit, Opt (cat [lit ''-'', Rep 4 Digit])]]),
      (''autocompletes'',
       [lit ''postal-code'', lit ''zip''])]"

definition textarea_patterns :: "(string \<times> regex list) list" where
  "textarea_patterns =
     [(''names'',
       [cat [lit ''cover'', Opt (lit ''-''), lit ''letter''], lit ''message'', lit ''comment'',
        cat [lit ''additional'', Opt (lit ''-''), lit ''info''], lit ''summary'',
        lit ''description'']),
      (''labels'',
       [cat [lit ''cover'', Star Space, lit ''letter''], lit ''message'', lit ''comments'',
        cat [lit ''additional'', Star Space, lit ''information''],
        cat [lit ''tell'', Star Space, lit ''us'', Star Space, lit ''more'']])]"

text \<open>\<open>_get_default_field_patterns\<close>, in the order of the dictionary literal.\<close>

definition default_field_patterns ::
  "(FieldType \<times> (string \<times> regex list) list) list" where
  "default_field_patterns =
     [(EMAIL, email_patterns),
      (PASSWORD, password_patterns),
      (FIRST_NAME, first_name_patterns),
      (LAST_NAME, last_name_patterns),
      (PHONE, phone_patterns),
      (COMPANY, company_patterns),
      (JOB_TITLE, job_title_patterns),
      (RESUME_FILE, resume_file_patterns),
      (ADDRESS_LINE1, address_line1_patterns),
      (CITY, city_patterns),
      (STATE, state_patterns),
      (ZIP_CODE, zip_code_patterns),
      (TEXTAREA, textarea_patterns)]"

text \<open>\<open>_get_default_negative_patterns\<close>\<close>

definition default_negative_patterns :: "(FieldType \<times> regex list) list" where
  "default_negative_patterns =
     [(EMAIL,
       [lit ''confirm'', cat [lit ''re'', Opt (lit ''-''), lit ''type''], lit ''verify'',
        cat [lit ''new'', Star Space, lit ''email''], lit ''search'', lit ''filter'']),
      (PASSWORD,
       [lit ''confirm'', cat [lit ''re'', Opt (lit ''-''), lit ''type''], lit ''verify'',
        cat [lit ''new'', Star Space, lit ''password''],
        cat [lit ''current'', Star Space, lit ''password''],
        cat [lit ''old'', Star Space, lit ''password'']]),
      (FIRST_NAME,
       [lit ''last'', lit ''family'', lit ''surname'', lit ''middle'', lit ''initial'']),
      (LAST_NAME,
       [lit ''first'', lit ''given'', lit ''middle'', lit ''initial'']),
      (PHONE,
       [lit ''extension'', cat [lit ''ext'', Opt (lit ''.'')],
        cat [lit ''country'', Star Space, lit ''code''],
        cat [lit ''area'', Star Space, lit ''code'']])]"

text \<open>\<open>_get_default_attribute_weights\<close>\<close>

definition default_attribute_weights :: "(string \<times> rat) list" where
  "default_attribute_weights =
     [(''label'', 5 / 2), (''name'', 11 / 5), (''id'', 2), (''placeholder'', 9 / 5),
      (''type'', 3), (''autocomplete'', 7 / 2), (''data-automation-id'', 14 / 5),
      (''aria-label'', 3 / 2), (''text'', 1), (''class'', 1 / 2), (''context'', 3 / 10)]"

text \<open>\<open>weights.get(key, dflt)\<close>\<close>

definition weights_get :: "string \<Rightarrow> rat \<Rightarrow> rat" where
  "weights_get key dflt =
     (case map_of default_attribute_weights key of None \<Rightarrow> dflt | Some w \<Rightarrow> w)"

text \<open>\<open>FieldType.value\<close>\<close>

fun field_type_value :: "FieldType \<Rightarrow> string" where
  "field_type_value EMAIL = ''email''"
| "field_type_value PASSWORD = ''password''"
| "field_type_value CONFIRM_PASSWORD = ''confirm_password''"
| "field_type_value FIRST_NAME = ''first_name''"
| "field_type_value LAST_NAME = ''last_name''"
| "field_type_value FULL_NAME = ''full_name''"
| "field_type_value PHONE = ''phone''"
| "field_type_value LOCATION = ''location''"
| "field_type_value ADDRESS_LINE1 = ''address_line1''"
| "field_type_value ADDRESS_LINE2 = ''address_line2''"
| "field_type_value CITY = ''city''"
| "field_type_value STATE = ''state''"
| "field_type_value ZIP_CODE = ''zip_code''"
| "field_type_value COUNTRY = ''country''"
| "field_type_value COMPANY = ''company''"
| "field_type_value JOB_TITLE = ''job_title''"
| "field_type_value YEARS_EXPERIENCE = ''years_experience''"
| "field_type_value SALARY = ''salary''"
| "field_type_value SCHOOL = ''school''"
| "field_type_value DEGREE = ''degree''"
| "field_type_value FIELD_OF_STUDY = ''field_of_study''"
| "field_type_value GRADUATION_DATE = ''graduation_date''"
| "field_type_value LINKEDIN = ''linkedin_profile_url''"
| "field_type_value PORTFOLIO = ''portfolio_url''"
| "field_type_value WEBSITE = ''personal_website_url''"
| "field_type_value COVER_LETTER_TEXT = ''cover_letter_text''"
| "field_type_value RESUME_FILE = ''resume_file''"
| "field_type_value COVER_LETTER_FILE = ''cover_letter_file''"
| "field_type_value TEXT_INPUT = ''text_input''"
| "field_type_value SELECT = ''select_dropdown''"
| "field_type_value CHECKBOX = ''checkbox''"
| "field_type_value RADIO_BUTTON = ''radio_button_group''"
| "field_type_value TEXTAREA = ''textarea''"
| "field_type_value SUBMIT_BUTTON = ''submit_button''"
| "field_type_value NEXT_BUTTON = ''next_button''"
| "field_type_value UNKNOWN = ''unknown''"

section \<open>Confidence scorer\<close>

text \<open>
  Python's \<open>round(x, 3)\<close>, on exact rationals: to the nearest multiple of 1/1000, a tie
  going to the even one.
\<close>

definition round_half_even :: "rat \<Rightarrow> int" where
  "round_half_even x =
     (let f = \<lfloor>x\<rfloor>; d = x - of_int f
      in if d < 1 / 2 then f else if 1 / 2 < d then f + 1
         else if even f then f else f + 1)"

definition round3 :: "rat \<Rightarrow> rat" where
  "round3 x = of_int (round_half_even (x * 1000)) / 1000"

text \<open>The attribute that a pattern group is matched against; \<open>None\<close> for any other key.\<close>

definition attr_for_group :: "string \<Rightarrow> element_data \<Rightarrow> string option" where
  "attr_for_group pattern_group_key element_data =
     (if pattern_group_key = ''names'' then Some (name element_data)
      else if pattern_group_key = ''labels'' then Some (label element_data)
      else if pattern_group_key = ''placeholders'' then Some (placeholder element_data)
      else if pattern_group_key = ''types'' then Some (html_type element_data)
      else if pattern_group_key = ''autocompletes'' then Some (autocomplete element_data)
      else if pattern_group_key = ''data-automation-ids''
        then Some (data_automation_id element_data)
      else if pattern_group_key = ''texts'' then Some (el_text element_data)
      else None)"

text \<open>\<open>pattern_group_key[:-1] if pattern_group_key.endswith('s') else pattern_group_key\<close>\<close>

definition weight_key :: "string \<Rightarrow> string" where
  "weight_key pattern_group_key =
     (if pattern_group_key \<noteq> [] \<and> last pattern_group_key = CHR ''s''
      then butlast pattern_group_key else pattern_group_key)"

text \<open>What one pattern group adds to the score: its weight, once, if one pattern matches.\<close>

definition group_score :: "element_data \<Rightarrow> string \<times> regex list \<Rightarrow> rat" where
  "group_score element_data g =
     (case attr_for_group (fst g) element_data of
        None \<Rightarrow> 0
      | Some v \<Rightarrow>
          if v = [] then 0
          else if list_ex (\<lambda>pattern_regex. re_search True pattern_regex (lower v)) (snd g)
          then weights_get (weight_key (fst g)) 1
          else 0)"

definition type_bonus :: "element_data \<Rightarrow> FieldType \<Rightarrow> rat" where
  "type_bonus element_data ft =
     (let t = lower (html_type element_data)
      in if t = field_type_value ft \<and> ft \<in> {EMAIL, PASSWORD}
         then weights_get ''type'' 3 * (3 / 2)
         else if t = ''tel'' \<and> ft = PHONE then weights_get ''type'' 3
         else if t = ''file'' \<and> ft \<in> {RESUME_FILE, COVER_LETTER_FILE}
         then weights_get ''type'' 3
         else 0)"

text \<open>The values of \<open>text_attributes_to_check\<close>, in its order.\<close>

definition text_attributes_to_check :: "element_data \<Rightarrow> string list" where
  "text_attributes_to_check element_data =
     [label element_data, name element_data, html_id element_data,
      placeholder element_data, aria_label element_data, el_text element_data,
      data_automation_id element_data, autocomplete element_data]"

definition penalty_applied :: "element_data \<Rightarrow> FieldType \<Rightarrow> bool" where
  "penalty_applied element_data ft =
     (let negative_regex_list =
            (case map_of default_negative_patterns ft of None \<Rightarrow> [] | Some l \<Rightarrow> l)
      in list_ex
           (\<lambda>neg_regex.
              list_ex (\<lambda>v. v \<noteq> [] \<and> re_search True neg_regex (lower v))
                (text_attributes_to_check element_data))
           negative_regex_list)"

text \<open>The score before normalisation.\<close>

definition raw_score :: "element_data \<Rightarrow> (string \<times> regex list) list \<Rightarrow> FieldType \<Rightarrow> rat" where
  "raw_score element_data patterns_for_type ft =
     (let score = sum_list (map (group_score element_data) patterns_for_type)
                  + type_bonus element_data ft
      in if penalty_applied element_data ft then score * (3 / 10) else score)"

text \<open>
  The denominator: the weights whose key is a key of \<open>patterns_for_type\<close> or is \<open>type\<close>,
  plus 2.
\<close>

definition max_possible_score :: "(string \<times> regex list) list \<Rightarrow> rat" where
  "max_possible_score patterns_for_type =
     (let m = sum_list
                (map snd
                   (filter (\<lambda>kw. fst kw \<in> set (map fst patterns_for_type) \<or> fst kw = ''type'')
                      default_attribute_weights)) + 2
      in if m = 0 then 10 else m)"

text \<open>\<open>_calculate_confidence\<close>\<close>

definition calculate_confidence ::
  "element_data \<Rightarrow> (string \<times> regex list) list \<Rightarrow> FieldType \<Rightarrow> rat" where
  "calculate_confidence element_data patterns_for_type ft =
     (let score = raw_score element_data patterns_for_type ft;
          normalized_score =
            (if 0 < score then min (score / max_possible_score patterns_for_type) 1 else 0)
      in round3 normalized_score)"

text \<open>
  The scorer as the specification words it: the raw score over the sum of the weights of
  the categories of the pattern set, plus the constant.
\<close>

definition spec_max_possible_score :: "(string \<times> regex list) list \<Rightarrow> rat" where
  "spec_max_possible_score patterns_for_type =
     sum_list (map (\<lambda>g. weights_get (weight_key (fst g)) 1) patterns_for_type) + 2"

definition spec_confidence ::
  "element_data \<Rightarrow> (string \<times> regex list) list \<Rightarrow> FieldType \<Rightarrow> rat" where
  "spec_confidence element_data patterns_for_type ft =
     round3 (min (raw_score element_data patterns_for_type ft
                  / spec_max_possible_score patterns_for_type) 1)"

section \<open>Conflict resolution\<close>

text \<open>
  Python dictionaries keep insertion order; they are association lists here.
  \<open>dict_set\<close> is \<open>d[k] = v\<close>, and \<open>dict_append\<close> is
  \<open>if k not in d: d[k] = []\<close> followed by \<open>d[k].append(v)\<close>.
\<close>

fun dict_set :: "'k \<Rightarrow> 'v \<Rightarrow> ('k \<times> 'v) list \<Rightarrow> ('k \<times> 'v) list" where
  "dict_set k v [] = [(k, v)]"
| "dict_set k v (p # ps) = (if fst p = k then (k, v) # ps else p # dict_set k v ps)"

fun dict_append :: "'k \<Rightarrow> 'v \<Rightarrow> ('k \<times> 'v list) list \<Rightarrow> ('k \<times> 'v list) list" where
  "dict_append k v [] = [(k, [v])]"
| "dict_append k v (p # ps) =
     (if fst p = k then (k, snd p @ [v]) # ps else p # dict_append k v ps)"

definition group_by :: "('a \<Rightarrow> 'k) \<Rightarrow> 'a list \<Rightarrow> ('k \<times> 'a list) list" where
  "group_by key xs = foldl (\<lambda>d x. dict_append (key x) x d) [] xs"

text \<open>
  \<open>ff_list.sort(key=lambda ff: ff.confidence, reverse=True)\<close>: a stable sort, so candidates
  of equal confidence keep their order.
\<close>

definition sort_by_confidence :: "FormField list \<Rightarrow> FormField list" where
  "sort_by_confidence ffs = sort_key (\<lambda>ff. - confidence ff) ffs"

record config =
  confidence_threshold :: "rat option"

text \<open>\<open>self.config.get('confidence_threshold', 0.45)\<close>\<close>

definition threshold :: "config \<Rightarrow> rat" where
  "threshold cfg = (case confidence_threshold cfg of None \<Rightarrow> 9 / 20 | Some t \<Rightarrow> t)"

text \<open>Phase 1: the best candidate of every selector.\<close>

fun best_of_groups :: "('k \<times> FormField list) list \<Rightarrow> FormField list" where
  "best_of_groups [] = []"
| "best_of_groups (g # gs) =
     (case sort_by_confidence (snd g) of
        [] \<Rightarrow> best_of_groups gs
      | b # _ \<Rightarrow> b # best_of_groups gs)"

definition best_candidates_per_element :: "FormField list \<Rightarrow> FormField list" where
  "best_candidates_per_element candidates = best_of_groups (group_by ff_selector candidates)"

text \<open>Phase 2: one step of the loop over \<open>final_by_type.items()\<close>.\<close>

definition resolve_step ::
  "config \<Rightarrow> (FieldType \<times> FormField) list \<Rightarrow> FieldType \<times> FormField list
     \<Rightarrow> (FieldType \<times> FormField) list" where
  "resolve_step cfg resolved g =
     (case sort_by_confidence (snd g) of
        [] \<Rightarrow> resolved
      | best_ff_for_type # _ \<Rightarrow>
          if threshold cfg \<le> confidence best_ff_for_type then
            (if (case map_of resolved (fst g) of
                   None \<Rightarrow> True
                 | Some r \<Rightarrow> confidence r < confidence best_ff_for_type)
             then dict_set (fst g) best_ff_for_type resolved
             else resolved)
          else resolved)"

text \<open>\<open>_resolve_field_conflicts\<close>\<close>

definition resolve_field_conflicts ::
  "config \<Rightarrow> FormField list \<Rightarrow> (FieldType \<times> FormField) list" where
  "resolve_field_conflicts cfg candidates =
     foldl (resolve_step cfg) []
       (group_by field_type (best_candidates_per_element candidates))"

text \<open>
  What holds of every entry of the mapping while the groups are folded in: the entry is a
  best member of the group of its type, and meets the threshold.
\<close>

definition entry_ok ::
  "config \<Rightarrow> (FieldType \<times> FormField list) list \<Rightarrow> FieldType \<times> FormField \<Rightarrow> bool" where
  "entry_ok cfg gs p =
     (\<exists>g \<in> set gs. fst g = fst p \<and> snd p \<in> set (snd g) \<and>
        (\<forall>x \<in> set (snd g). confidence x \<le> confidence (snd p)) \<and>
        threshold cfg \<le> confidence (snd p))"

section \<open>Button intent\<close>

fun join_sp :: "string list \<Rightarrow> string" where
  "join_sp [] = []"
| "join_sp [x] = x"
| "join_sp (x # y # ys) = x @ '' '' @ join_sp (y # ys)"

definition apply_patterns :: "regex list" where
  "apply_patterns =
     [wb ''apply now'', wb ''apply for this job'', wb ''submit application'', wb ''apply'']"

definition next_patterns :: "regex list" where
  "next_patterns =
     [wb ''next'', wb ''continue'', wb ''proceed'',
      cat [WordB, lit ''step '', Plus Digit, WordB], wb ''forward'']"

definition submit_patterns :: "regex list" where
  "submit_patterns =
     [wb ''submit'', wb ''send'', wb ''finish'', wb ''complete'', wb ''done'',
      wb ''save & exit'', wb ''save and exit'', wb ''save'']"

text \<open>
  The two operands of the \<open>in\<close> tests in the next-family branch are the raw string literals
  \<open>r'\bsave\b'\<close> and \<open>r'\bcontinue\b'\<close>: a backslash, the letter b, the word, a backslash, the
  letter b.
\<close>

definition raw_b_save :: string where
  "raw_b_save = [CHR 0x5C] @ ''bsave'' @ [CHR 0x5C] @ ''b''"

definition raw_b_continue :: string where
  "raw_b_continue = [CHR 0x5C] @ ''bcontinue'' @ [CHR 0x5C] @ ''b''"

text \<open>\<open>_classify_button\<close>: \<open>None\<close> is Python's \<open>None\<close>.\<close>

definition classify_button :: "element_data \<Rightarrow> string option" where
  "classify_button element_data =
     (let text_sources =
            [el_text element_data, val element_data, aria_label element_data,
             name element_data, html_id element_data, data_automation_id element_data];
          full_text_corpus = lower (join_sp (filter (\<lambda>s. s \<noteq> []) text_sources))
      in if list_all is_space full_text_corpus then None
         else if list_ex (\<lambda>pattern. re_search False pattern full_text_corpus) apply_patterns
         then Some ''apply''
         else if list_ex (\<lambda>pattern. re_search False pattern full_text_corpus) next_patterns
         then (if py_in raw_b_save full_text_corpus \<and> py_in raw_b_continue full_text_corpus
               then Some ''submit'' else Some ''next'')
         else if list_ex (\<lambda>pattern. re_search False pattern full_text_corpus) submit_patterns
         then Some ''submit''
         else if lower (html_type element_data) = ''submit'' then Some ''submit''
         else None)"

section \<open>Form purpose\<close>

definition job_app_keywords :: "FieldType set" where
  "job_app_keywords =
     {RESUME_FILE, COVER_LETTER_FILE, LINKEDIN, COMPANY, JOB_TITLE, YEARS_EXPERIENCE,
      SCHOOL, DEGREE}"

definition contact_keywords :: "string list" where
  "contact_keywords = [''message'', ''comment'', ''query'', ''question'', ''feedback'']"

text \<open>
  The loop of the contact branch: a free-text field whose label and placeholder mention one
  of the keywords.
\<close>

definition mentions_contact_keyword :: "FieldType \<times> FormField \<Rightarrow> bool" where
  "mentions_contact_keyword p =
     (case p of (ft, ff) \<Rightarrow>
        ft \<in> {TEXTAREA, TEXT_INPUT} \<and>
        (let text_content =
               (case label_text ff of None \<Rightarrow> [] | Some l \<Rightarrow> l) @ '' '' @
               placeholder (attributes ff)
         in list_ex (\<lambda>kw. py_in kw (lower text_content)) contact_keywords))"

text \<open>
  \<open>_detect_form_purpose\<close>. The dictionary \<open>detected_fields\<close> is an association list in
  insertion order.
\<close>

definition detect_form_purpose :: "(FieldType \<times> FormField) list \<Rightarrow> string" where
  "detect_form_purpose detected_fields =
     (let field_types_present = set (map fst detected_fields) in
      if RESUME_FILE \<in> field_types_present \<or>
         (JOB_TITLE \<in> field_types_present \<and> COMPANY \<in> field_types_present) \<or>
         card (field_types_present \<inter> job_app_keywords) \<ge> 2
      then ''job_application''
      else if EMAIL \<in> field_types_present \<and> PASSWORD \<in> field_types_present \<and>
              (let other_fields =
                     field_types_present - {EMAIL, PASSWORD, SUBMIT_BUTTON, NEXT_BUTTON}
               in other_fields = {} \<or> card other_fields \<le> 1)
      then ''login''
      else if EMAIL \<in> field_types_present \<and> PASSWORD \<in> field_types_present \<and>
              (FIRST_NAME \<in> field_types_present \<or> CONFIRM_PASSWORD \<in> field_types_present \<or>
               FULL_NAME \<in> field_types_present)
      then ''registration''
      else if EMAIL \<in> field_types_present \<and>
              (FULL_NAME \<in> field_types_present \<or>
               (FIRST_NAME \<in> field_types_present \<and> LAST_NAME \<in> field_types_present)) \<and>
              (TEXTAREA \<in> field_types_present \<or> TEXT_INPUT \<in> field_types_present) \<and>
              (list_ex mentions_contact_keyword detected_fields \<or>
               card field_types_present \<le> 5)
      then ''contact''
      else ''general_form'')"

section \<open>Page analysis\<close>

text \<open>
  One scanned element: whether it is attached, what \<open>is_visible\<close> answers (\<open>None\<close> when it
  raises), and the bundle \<open>_get_element_data\<close> returns (\<open>None\<close> when it fails). An
  exception inside the loop body skips the element.
\<close>

record page_element =
  attached :: bool
  visible :: "bool option"
  data :: "element_data option"

definition is_button_like :: "element_data \<Rightarrow> bool" where
  "is_button_like element_data =
     (tag element_data \<in> {''button'', ''a''} \<or>
      html_type element_data \<in> {''submit'', ''button'', ''reset'', ''image''} \<or>
      py_in ''button'' (role element_data))"

definition button_field :: "nat \<Rightarrow> element_data \<Rightarrow> string \<Rightarrow> FormField" where
  "button_field i element_data button_classification =
     \<lparr>element = i,
      field_type = (if button_classification = ''submit'' then SUBMIT_BUTTON
                    else if button_classification = ''next'' then NEXT_BUTTON else UNKNOWN),
      confidence = 17 / 20,
      ff_selector = selector element_data,
      label_text = Some (if el_text element_data \<noteq> [] then el_text element_data
                         else aria_label element_data),
      attributes = element_data,
      context_text = None,
      element_type_html = ''input''\<rparr>"

text \<open>The types admitted for an element: those whose confidence exceeds 0.15.\<close>

definition possible_types_for_element :: "element_data \<Rightarrow> (rat \<times> FieldType) list" where
  "possible_types_for_element element_data =
     filter (\<lambda>p. 3 / 20 < fst p)
       (map (\<lambda>p. (calculate_confidence element_data (snd p) (fst p), fst p))
          default_field_patterns)"

datatype scan_result = Skipped | ActionButton string FormField | FieldCandidate FormField

definition scan_element :: "config \<Rightarrow> nat \<Rightarrow> page_element \<Rightarrow> scan_result" where
  "scan_element cfg i el =
     (if \<not> attached el \<or> visible el \<noteq> Some True then Skipped
      else case data el of
        None \<Rightarrow> Skipped
      | Some element_data \<Rightarrow>
          (case (if is_button_like element_data then classify_button element_data else None) of
             Some button_classification \<Rightarrow>
               ActionButton button_classification
                 (button_field i element_data button_classification)
           | None \<Rightarrow>
               (case sort_key (\<lambda>p. - fst p) (possible_types_for_element element_data) of
                  [] \<Rightarrow> Skipped
                | best # _ \<Rightarrow>
                    if threshold cfg \<le> fst best then
                      FieldCandidate
                        \<lparr>element = i, field_type = snd best, confidence = fst best,
                         ff_selector = selector element_data,
                         label_text = Some (label element_data),
                         attributes = element_data,
                         context_text = None,
                         element_type_html = tag element_data\<rparr>
                    else Skipped)))"

fun candidates_of :: "scan_result list \<Rightarrow> FormField list" where
  "candidates_of [] = []"
| "candidates_of (FieldCandidate ff # rs) = ff # candidates_of rs"
| "candidates_of (r # rs) = candidates_of rs"

fun buttons_of :: "string \<Rightarrow> scan_result list \<Rightarrow> FormField list" where
  "buttons_of k [] = []"
| "buttons_of k (ActionButton b ff # rs) =
     (if b = k then ff # buttons_of k rs else buttons_of k rs)"
| "buttons_of k (r # rs) = buttons_of k rs"

record FormAnalysisResult =
  form_purpose :: string
  detected_fields :: "(FieldType \<times> FormField) list"
  submit_buttons :: "FormField list"
  next_buttons :: "FormField list"
  apply_buttons :: "FormField list"

text \<open>
  \<open>detect_all_fields_on_page\<close>, from the located elements to the resolved fields, the action
  buttons and the form purpose. The step indicators, set afterwards from a separate query
  of the page, touch none of these and are left out.
\<close>

definition detect_all_fields_on_page :: "config \<Rightarrow> page_element list \<Rightarrow> FormAnalysisResult" where
  "detect_all_fields_on_page cfg all_elements =
     (let results = map (\<lambda>p. scan_element cfg (fst p) (snd p))
                      (zip [0 ..< length all_elements] all_elements);
          fields = resolve_field_conflicts cfg (candidates_of results)
      in \<lparr>form_purpose = detect_form_purpose fields,
          detected_fields = fields,
          submit_buttons = buttons_of ''submit'' results,
          next_buttons = buttons_of ''next'' results,
          apply_buttons = buttons_of ''apply'' results\<rparr>)"

text \<open>Every \<open>FormField\<close> of an analysis.\<close>

definition all_form_fields :: "FormAnalysisResult \<Rightarrow> FormField list" where
  "all_form_fields a =
     map snd (detected_fields a) @ submit_buttons a @ next_buttons a @ apply_buttons a"

section \<open>DOM stability detector\<close>

text \<open>
  The script that \<open>_inject_stability_observer_script\<close> installs, as a state machine. The
  value of \<open>Date.now()\<close> at each call is an argument, in milliseconds. A mutation record
  carries what \<open>isCriticalMutation\<close> reads: \<open>target_is_control\<close> is the outcome of
  \<open>target.matches\<close> on the list of interactive selectors, \<open>old_value\<close> whether
  \<open>mutation.oldValue\<close> is truthy.
\<close>

record mutation =
  mutation_type :: string
  added_nodes :: nat
  removed_nodes :: nat
  target_is_control :: bool
  attribute_name :: string
  old_value :: bool
  display_none :: bool
  visibility_hidden :: bool












subsection \<open>The polling loop\<close>










section \<open>Decision handler\<close>

text \<open>An option of a decision point: the dictionary with name, selectors and preferred.\<close>

record option_def =
  opt_name :: string
  selectors :: "string list"
  preferred :: bool

record detection_criteria =
  url_patterns :: "string list"
  text_indicators :: "string list"
  button_options_texts :: "string list"

record DecisionPoint =
  dp_name :: string
  description :: string
  criteria :: detection_criteria
  options :: "option_def list"

text \<open>
  The page as the handler sees it. A locator query answers \<open>None\<close> when it raises. The
  text-indicator and button queries are keyed by the indicator or button text that the
  selector is built from. An element answers the visibility and enabled checks (\<open>None\<close>: a
  timeout), and says whether its click and the wait that follows the click succeed. The
  page answers the same throughout one call.
\<close>

record click_element =
  is_visible :: "bool option"
  is_enabled :: "bool option"
  click_succeeds :: bool
  wait_succeeds :: bool

record dpage =
  url :: string
  text_locator_count :: "string \<Rightarrow> nat option"
  page_content :: "string option"
  button_locator_count :: "string \<Rightarrow> nat option"
  locator_all :: "string \<Rightarrow> click_element list option"

text \<open>The preferences dictionary: \<open>decisions\<close> is \<open>None\<close> when the key is absent.\<close>

record preferences =
  decisions :: "(string \<times> string) list option"

datatype file_state = Missing | Content preferences | Garbled

text \<open>What happens when the preferences file is written.\<close>

datatype write_outcome = WriteOk | OpenFails | DumpFails

record DecisionHandler =
  prefs :: preferences
  preferences_file :: file_state
  disk :: write_outcome
  decision_points :: "DecisionPoint list"

text \<open>What the handler did to the page and to the store, in order.\<close>

datatype event = Clicked string nat | Stored string string

definition initialize_decision_points :: "DecisionPoint list" where
  "initialize_decision_points =
     [\<lparr>dp_name = ''workday_application_method_selection'',
       description = ''Workday: Choose how to apply (Autofill/Manual/Last Application)'',
       criteria =
         \<lparr>url_patterns = [''myworkdayjobs.com''],
          text_indicators =
            [''Start Your Application'', ''Please select how you would like to apply'',
             ''How would you like to apply?''],
          button_options_texts =
            [''Autofill with Resume'', ''Apply Manually'', ''Use My Last Application'']\<rparr>,
       options =
         [\<lparr>opt_name = ''autofill_resume_workday'',
           selectors =
             [''a[data-automation-id='autofillWithResume']'',
              ''button[data-automation-id='autofillWithResume']'',
              ''button:text-matches('(?i)autofill.*resume')'',
              ''a:text-matches('(?i)autofill.*resume')'',
              ''[aria-label*='Autofill with Resume' i]''],
           preferred = True\<rparr>,
          \<lparr>opt_name = ''apply_manually_workday'',
           selectors =
             [''a[data-automation-id='applyManually']'',
              ''button[data-automation-id='applyManually']'',
              ''button:has-text('Apply Manually')'',
              ''a:has-text('Apply Manually')'',
              ''[aria-label*='Apply Manually' i]''],
           preferred = False\<rparr>,
          \<lparr>opt_name = ''use_last_application_workday'',
           selectors =
             [''a[data-automation-id='useMyLastApplication']'',
              ''button[data-automation-id='useMyLastApplication']'',
              ''button:has-text('Use My Last Application')'',
              ''a:has-text('Use My Last Application')'',
              ''[aria-label*='Use My Last Application' i]''],
           preferred = False\<rparr>]\<rparr>,
      \<lparr>dp_name = ''resume_parse_confirmation'',
       description = ''Confirm parsed resume information after autofill'',
       criteria =
         \<lparr>url_patterns = [''myworkdayjobs.com/apply''],
          text_indicators =
            [''Review your information'', ''Confirm your details'',
             ''Information from resume'', ''Review and Submit'', ''My Information''],
          button_options_texts =
            [''Continue'', ''Next'', ''Save and continue'', ''Edit Information'']\<rparr>,
       options =
         [\<lparr>opt_name = ''continue_after_parse'',
           selectors =
             [''button[data-automation-id*='continue' i]'',
              ''button[data-automation-id*='next' i]'',
              ''button:has-text('Continue' i)'',
              ''button:has-text('Next' i)'',
              ''button:text-matches('(?i)save.*continue')''],
           preferred = True\<rparr>]\<rparr>]"

subsection \<open>Detection\<close>

definition found :: "nat option \<Rightarrow> bool" where
  "found c = (case c of None \<Rightarrow> False | Some n \<Rightarrow> 0 < n)"

definition url_match :: "dpage \<Rightarrow> DecisionPoint \<Rightarrow> bool" where
  "url_match page dp =
     list_ex (\<lambda>pattern. py_in (lower pattern) (lower (url page)))
       (url_patterns (criteria dp))"

definition text_match :: "dpage \<Rightarrow> DecisionPoint \<Rightarrow> bool" where
  "text_match page dp =
     (let text_indicators = text_indicators (criteria dp)
      in if list_ex (\<lambda>indicator_text. found (text_locator_count page indicator_text))
              text_indicators
         then True
         else if text_indicators \<noteq> [] then
           (case page_content page of
              None \<Rightarrow> False
            | Some c \<Rightarrow>
                list_ex (\<lambda>indicator. py_in (lower indicator) (lower c)) text_indicators)
         else False)"

definition actual_buttons_found_count :: "dpage \<Rightarrow> DecisionPoint \<Rightarrow> nat" where
  "actual_buttons_found_count page dp =
     length (filter (\<lambda>btn_txt. found (button_locator_count page btn_txt))
               (button_options_texts (criteria dp)))"

text \<open>The test at the end of the loop body of \<open>detect_decision_point\<close>.\<close>

definition dp_detected :: "dpage \<Rightarrow> DecisionPoint \<Rightarrow> bool" where
  "dp_detected page dp =
     (let button_options_texts = button_options_texts (criteria dp);
          strong_indicator_match = (url_match page dp \<or> text_match page dp);
          buttons_criterion_met =
            (if button_options_texts \<noteq> [] then
               (let required_buttons = max 1 (length button_options_texts div 2)
                in required_buttons \<le> actual_buttons_found_count page dp)
             else True)
      in strong_indicator_match \<and> buttons_criterion_met)"

text \<open>\<open>detect_decision_point\<close>: the first decision point that passes the test.\<close>

definition detect_decision_point :: "DecisionHandler \<Rightarrow> dpage \<Rightarrow> DecisionPoint option" where
  "detect_decision_point h page = find (dp_detected page) (decision_points h)"

subsection \<open>The preference store\<close>

definition get_stored_decision :: "DecisionHandler \<Rightarrow> string \<Rightarrow> string option" where
  "get_stored_decision h decision_name =
     (case decisions (prefs h) of None \<Rightarrow> None | Some d \<Rightarrow> map_of d decision_name)"

definition save_preferences :: "DecisionHandler \<Rightarrow> DecisionHandler" where
  "save_preferences h =
     (case disk h of
        WriteOk \<Rightarrow> h\<lparr>preferences_file := Content (prefs h)\<rparr>
      | OpenFails \<Rightarrow> h
      | DumpFails \<Rightarrow> h\<lparr>preferences_file := Garbled\<rparr>)"

definition store_decision :: "DecisionHandler \<Rightarrow> string \<Rightarrow> string \<Rightarrow> DecisionHandler" where
  "store_decision h decision_name choice_name =
     (let d = (case decisions (prefs h) of None \<Rightarrow> [] | Some d \<Rightarrow> d)
      in save_preferences
           (h\<lparr>prefs := (prefs h)\<lparr>decisions := Some (dict_set decision_name choice_name d)\<rparr>\<rparr>))"

subsection \<open>Resolution\<close>

text \<open>The two loops over \<open>decision_point.options\<close>: the first hit wins.\<close>

definition option_named :: "string \<Rightarrow> option_def list \<Rightarrow> option_def option" where
  "option_named stored_choice_name opts = find (\<lambda>od. opt_name od = stored_choice_name) opts"

definition preferred_option :: "option_def list \<Rightarrow> option_def option" where
  "preferred_option opts = find preferred opts"

text \<open>
  The option that \<open>handle_decision_point\<close> selects: the stored one if the stored name is
  non-empty and names an option, otherwise the default preferred one if \<open>auto_select\<close>.
\<close>

definition selected_option_definition ::
  "DecisionHandler \<Rightarrow> DecisionPoint \<Rightarrow> bool \<Rightarrow> option_def option" where
  "selected_option_definition h dp auto_select =
     (let by_stored =
            (case get_stored_decision h (dp_name dp) of
               None \<Rightarrow> None
             | Some stored_choice_name \<Rightarrow>
                 if stored_choice_name \<noteq> [] then option_named stored_choice_name (options dp)
                 else None)
      in case by_stored of
           Some od \<Rightarrow> Some od
         | None \<Rightarrow> if auto_select then preferred_option (options dp) else None)"

text \<open>
  The loop over the elements of one selector. The result says whether the function
  returned \<open>True\<close>; an exception leaves the loop, and the caller goes on with the next
  selector.
\<close>

fun try_elements ::
  "string \<Rightarrow> string \<Rightarrow> string \<Rightarrow> nat \<Rightarrow> click_element list \<Rightarrow> DecisionHandler
     \<Rightarrow> bool \<times> DecisionHandler \<times> event list" where
  "try_elements dn cn sel i [] h = (False, h, [])"
| "try_elements dn cn sel i (el # els) h =
     (case is_visible el of
        None \<Rightarrow> (False, h, [])
      | Some False \<Rightarrow> try_elements dn cn sel (Suc i) els h
      | Some True \<Rightarrow>
          (case is_enabled el of
             None \<Rightarrow> (False, h, [])
           | Some False \<Rightarrow> try_elements dn cn sel (Suc i) els h
           | Some True \<Rightarrow>
               if \<not> click_succeeds el then (False, h, [])
               else (wait_succeeds el, store_decision h dn cn,
                     [Clicked sel i, Stored dn cn])))"

fun try_selectors ::
  "string \<Rightarrow> string \<Rightarrow> dpage \<Rightarrow> string list \<Rightarrow> DecisionHandler
     \<Rightarrow> bool \<times> DecisionHandler \<times> event list" where
  "try_selectors dn cn page [] h = (False, h, [])"
| "try_selectors dn cn page (sel # sels) h =
     (case locator_all page sel of
        None \<Rightarrow> try_selectors dn cn page sels h
      | Some els \<Rightarrow>
          (case try_elements dn cn sel 0 els h of
             (True, h1, ev) \<Rightarrow> (True, h1, ev)
           | (False, h1, ev) \<Rightarrow>
               (case try_selectors dn cn page sels h1 of
                  (r, h2, ev2) \<Rightarrow> (r, h2, ev @ ev2))))"

text \<open>\<open>handle_decision_point\<close>: the result, the handler afterwards, and what was done.\<close>

definition handle_decision_point ::
  "DecisionHandler \<Rightarrow> dpage \<Rightarrow> DecisionPoint \<Rightarrow> bool \<Rightarrow> bool \<times> DecisionHandler \<times> event list" where
  "handle_decision_point h page dp auto_select =
     (case selected_option_definition h dp auto_select of
        None \<Rightarrow> (False, h, [])
      | Some od \<Rightarrow> try_selectors (dp_name dp) (opt_name od) page (selectors od) h)"

subsection \<open>The hard-coded handler and the public entry point\<close>

definition autofill_indicators :: "string list" where
  "autofill_indicators =
     [''Start Your Application'', ''Please select how you would like to apply'',
      ''How would you like to apply?'']"

definition autofill_option_selectors :: "string list" where
  "autofill_option_selectors =
     [''a[data-automation-id='autofillWithResume']'',
      ''button[data-automation-id='autofillWithResume']'',
      ''a[data-automation-id='autoFillResumeButton']'',
      ''button[data-automation-id='autoFillResumeButton']'',
      ''button:text-matches('(?i)autofill.*resume')'',
      ''a:text-matches('(?i)autofill.*resume')'',
      ''[aria-label*='Autofill with Resume' i]'']"

fun autofill_elements :: "string \<Rightarrow> nat \<Rightarrow> click_element list \<Rightarrow> bool \<times> event list" where
  "autofill_elements sel i [] = (False, [])"
| "autofill_elements sel i (el # els) =
     (case is_visible el of
        None \<Rightarrow> (False, [])
      | Some False \<Rightarrow> autofill_elements sel (Suc i) els
      | Some True \<Rightarrow>
          (case is_enabled el of
             None \<Rightarrow> (False, [])
           | Some False \<Rightarrow> autofill_elements sel (Suc i) els
           | Some True \<Rightarrow>
               if \<not> click_succeeds el then (False, [])
               else (wait_succeeds el, [Clicked sel i])))"

fun autofill_selectors :: "dpage \<Rightarrow> string list \<Rightarrow> bool \<times> event list" where
  "autofill_selectors page [] = (False, [])"
| "autofill_selectors page (sel # sels) =
     (case locator_all page sel of
        None \<Rightarrow> autofill_selectors page sels
      | Some els \<Rightarrow>
          (case autofill_elements sel 0 els of
             (True, ev) \<Rightarrow> (True, ev)
           | (False, ev) \<Rightarrow>
               (case autofill_selectors page sels of (r, ev2) \<Rightarrow> (r, ev @ ev2))))"

text \<open>\<open>handle_application_method_selection\<close>: it reads no preference and stores none.\<close>

definition handle_application_method_selection :: "dpage \<Rightarrow> bool \<times> event list" where
  "handle_application_method_selection page =
     (if list_ex (\<lambda>indicator_text. found (text_locator_count page indicator_text))
           autofill_indicators
      then autofill_selectors page autofill_option_selectors
      else (False, []))"

text \<open>\<open>check_and_handle_decision_points\<close>\<close>

definition check_and_handle_decision_points ::
  "dpage \<Rightarrow> DecisionHandler \<Rightarrow> bool \<times> DecisionHandler \<times> event list" where
  "check_and_handle_decision_points page h =
     (case handle_application_method_selection page of
        (True, ev) \<Rightarrow> (True, h, ev)
      | (False, ev) \<Rightarrow>
          (case detect_decision_point h page of
             None \<Rightarrow> (False, h, ev)
           | Some dp \<Rightarrow>
               (case handle_decision_point h page dp True of
                  (r, h1, ev1) \<Rightarrow> (r, h1, ev @ ev1))))"

subsection \<open>Reading the trace\<close>

text \<open>An element that the click loop can click.\<close>

definition clickable :: "click_element \<Rightarrow> bool" where
  "clickable el = (is_visible el = Some True \<and> is_enabled el = Some True \<and> click_succeeds el)"

definition any_clickable :: "dpage \<Rightarrow> string list \<Rightarrow> bool" where
  "any_clickable page sels =
     list_ex (\<lambda>sel. case locator_all page sel of
                      None \<Rightarrow> False
                    | Some els \<Rightarrow> list_ex clickable els) sels"

text \<open>A clickable element after whose click the wait raises.\<close>

definition any_wait_fails :: "dpage \<Rightarrow> string list \<Rightarrow> bool" where
  "any_wait_fails page sels =
     list_ex (\<lambda>sel. case locator_all page sel of
                      None \<Rightarrow> False
                    | Some els \<Rightarrow> list_ex (\<lambda>el. clickable el \<and> \<not> wait_succeeds el) els) sels"

text \<open>
  A trace in which every store of the choice \<open>cn\<close> for \<open>dn\<close> comes right after the click of a
  clickable element of one of the selectors \<open>sels\<close>, and nothing else happens.
\<close>

fun stores_follow_clicks ::
  "dpage \<Rightarrow> string list \<Rightarrow> string \<Rightarrow> string \<Rightarrow> event list \<Rightarrow> bool" where
  "stores_follow_clicks page sels dn cn [] = True"
| "stores_follow_clicks page sels dn cn (Clicked sel i # Stored dn' cn' # ev) =
     (sel \<in> set sels \<and> dn' = dn \<and> cn' = cn \<and>
      (case locator_all page sel of
         None \<Rightarrow> False
       | Some els \<Rightarrow> i < length els \<and> clickable (els ! i)) \<and>
      stores_follow_clicks page sels dn cn ev)"
| "stores_follow_clicks page sels dn cn ev = False"

text \<open>What a trace does to the handler: only a store event changes it.\<close>

fun replay :: "DecisionHandler \<Rightarrow> event list \<Rightarrow> DecisionHandler" where
  "replay h [] = h"
| "replay h (Clicked sel i # ev) = replay h ev"
| "replay h (Stored dn cn # ev) = replay (store_decision h dn cn) ev"

section \<open>Sample inputs\<close>

definition blank_data :: element_data where
  "blank_data =
     \<lparr>tag = ''input'', html_type = ''text'', name = [], html_id = [], html_class = [],
      placeholder = [], aria_label = [], aria_labelledby = [], aria_describedby = [],
      role = [], autocomplete = [], required = False, val = [], el_text = [],
      data_automation_id = [], selector = ''input'', label = []\<rparr>"

definition blank_field :: "FieldType \<Rightarrow> FormField" where
  "blank_field ft =
     \<lparr>element = 0, field_type = ft, confidence = 1 / 2, ff_selector = ''input'',
      label_text = None, attributes = blank_data, context_text = None,
      element_type_html = ''input''\<rparr>"

definition sample_config :: config where
  "sample_config = \<lparr>confidence_threshold = Some (2 / 5)\<rparr>"

text \<open>
  A page with an input that has only \<open>autocomplete="email"\<close>, a visible button and a button
  whose visibility check times out.
\<close>

definition sample_page :: "page_element list" where
  "sample_page =
     [\<lparr>attached = True, visible = Some True,
       data = Some (blank_data\<lparr>autocomplete := ''email'', selector := ''input.email''\<rparr>)\<rparr>,
      \<lparr>attached = True, visible = Some True,
       data = Some (blank_data\<lparr>tag := ''button'', html_type := ''submit'',
                                el_text := ''Save and Continue'', selector := ''button''\<rparr>)\<rparr>,
      \<lparr>attached = True, visible = None,
       data = Some (blank_data\<lparr>tag := ''button'', el_text := ''Apply'',
                                selector := ''button''\<rparr>)\<rparr>]"

text \<open>
  Three candidates: two for the selector \<open>input\<close>, an e-mail one and a stronger password
  one, and a weaker e-mail candidate for another selector.
\<close>

definition cand :: "string \<Rightarrow> FieldType \<Rightarrow> rat \<Rightarrow> FormField" where
  "cand sel ft c = (blank_field ft)\<lparr>ff_selector := sel, confidence := c\<rparr>"

definition sample_candidates :: "FormField list" where
  "sample_candidates =
     [cand ''input'' EMAIL (9 / 10), cand ''input'' PASSWORD (19 / 20),
      cand ''input.contact'' EMAIL (1 / 2)]"

text \<open>
  A Workday page that shows the heading and, of the three expected buttons, only
  "Apply Manually"; both the autofill link and the manual link can be clicked.
\<close>

definition ok_element :: click_element where
  "ok_element =
     \<lparr>is_visible = Some True, is_enabled = Some True, click_succeeds = True,
      wait_succeeds = True\<rparr>"

definition workday_page :: dpage where
  "workday_page =
     \<lparr>url = ''https://acme.wd5.myworkdayjobs.com/careers/job/123'',
      text_locator_count =
        (\<lambda>t. if t = ''Start Your Application'' then Some 1 else Some 0),
      page_content = Some ''<h2>Start Your Application</h2>'',
      button_locator_count = (\<lambda>t. if t = ''Apply Manually'' then Some 1 else Some 0),
      locator_all =
        (\<lambda>sel. if sel = ''a[data-automation-id='autofillWithResume']'' then Some [ok_element]
               else if sel = ''a[data-automation-id='applyManually']'' then Some [ok_element]
               else Some [])\<rparr>"

text \<open>The same page without the heading text: only the URL identifies it.\<close>

definition workday_page_no_heading :: dpage where
  "workday_page_no_heading =
     workday_page\<lparr>text_locator_count := (\<lambda>t. Some 0), page_content := Some ''<div></div>''\<rparr>"

text \<open>The same page with nothing to click.\<close>

definition workday_page_no_links :: dpage where
  "workday_page_no_links = workday_page_no_heading\<lparr>locator_all := (\<lambda>sel. Some [])\<rparr>"

text \<open>A handler whose store holds the choice "apply manually" for the Workday point.\<close>

definition manual_handler :: DecisionHandler where
  "manual_handler =
     \<lparr>prefs =
        \<lparr>decisions =
           Some [(''workday_application_method_selection'', ''apply_manually_workday'')]\<rparr>,
      preferences_file =
        Content
          \<lparr>decisions =
             Some [(''workday_application_method_selection'', ''apply_manually_workday'')]\<rparr>,
      disk = WriteOk,
      decision_points = initialize_decision_points\<rparr>"

text \<open>A handler with an empty store.\<close>

definition fresh_handler :: DecisionHandler where
  "fresh_handler =
     \<lparr>prefs = \<lparr>decisions = Some []\<rparr>, preferences_file = Missing, disk = WriteOk,
      decision_points = initialize_decision_points\<rparr>"

definition workday_point :: DecisionPoint where
  "workday_point = hd initialize_decision_points"

text \<open>Three batches of one added node each, 400 ms apart, observed with a 1000 ms window.\<close>

definition node_added :: mutation where
  "node_added =
     \<lparr>mutation_type = ''childList'', added_nodes = 1, removed_nodes = 0,
      target_is_control = False, attribute_name = [], old_value = False,
      display_none = False, visibility_hidden = False\<rparr>"

definition sample_batches :: "(int \<times> mutation list) list" where
  "sample_batches = [(400, [node_added]), (800, [node_added]), (1200, [node_added])]"


text \<open>The Workday page on which the autofill link can be clicked but the wait after it raises.\<close>

definition workday_page_wait_fails :: dpage where
  "workday_page_wait_fails =
     workday_page_no_heading
       \<lparr>locator_all :=
          (\<lambda>sel. if sel = ''a[data-automation-id='autofillWithResume']''
                 then Some [ok_element\<lparr>wait_succeeds := False\<rparr>]
                 else Some [])\<rparr>"

text \<open>
  The Workday page on which the first autofill link raises when asked whether it is visible,
  with a second link behind it that could be clicked.
\<close>

definition workday_page_visibility_raises :: dpage where
  "workday_page_visibility_raises =
     workday_page_no_heading
       \<lparr>locator_all :=
          (\<lambda>sel. if sel = ''a[data-automation-id='autofillWithResume']''
                 then Some [ok_element\<lparr>is_visible := None\<rparr>, ok_element]
                 else Some [])\<rparr>"






section \<open>Form purpose: the three sample field sets\<close>

text \<open>
  C2, as stated: the field set {EMAIL, PASSWORD, FIRST_NAME} is classified as registration.
  The code returns login there: the login test (email and password with at most one other
  non-action field) comes before the registration test.
\<close>

theorem C2_registration_counterexample:
  "detect_form_purpose
     [(EMAIL, blank_field EMAIL), (PASSWORD, blank_field PASSWORD),
      (FIRST_NAME, blank_field FIRST_NAME)] \<noteq> ''registration''"
  unfolding detect_form_purpose_def Let_def job_app_keywords_def by simp

text \<open>
  C2, amended: whatever the descriptors are, the field set {EMAIL, PASSWORD} gives login,
  {EMAIL, PASSWORD, RESUME_FILE} gives job_application, {EMAIL, PASSWORD, FIRST_NAME} gives
  login, and registration is reached once a second other field is there, as in
  {EMAIL, PASSWORD, FIRST_NAME, LAST_NAME}.
\<close>

theorem C2_form_purpose_samples:
  assumes "set (map fst a) = {EMAIL, PASSWORD}"
      and "set (map fst b) = {EMAIL, PASSWORD, RESUME_FILE}"
      and "set (map fst c) = {EMAIL, PASSWORD, FIRST_NAME}"
      and "set (map fst d) = {EMAIL, PASSWORD, FIRST_NAME, LAST_NAME}"
  shows "detect_form_purpose a = ''login'' \<and>
         detect_form_purpose b = ''job_application'' \<and>
         detect_form_purpose c = ''login'' \<and>
         detect_form_purpose d = ''registration''"
proof -
  have a: "detect_form_purpose a = ''login''"
    unfolding detect_form_purpose_def Let_def assms(1) job_app_keywords_def by simp
  have b: "detect_form_purpose b = ''job_application''"
    unfolding detect_form_purpose_def Let_def assms(2) job_app_keywords_def by simp
  have c: "detect_form_purpose c = ''login''"
    unfolding detect_form_purpose_def Let_def assms(3) job_app_keywords_def by simp
  have "{EMAIL, PASSWORD, FIRST_NAME, LAST_NAME} - {EMAIL, PASSWORD, SUBMIT_BUTTON, NEXT_BUTTON}
        = {FIRST_NAME, LAST_NAME}"
    by auto
  then have d: "detect_form_purpose d = ''registration''"
    unfolding detect_form_purpose_def Let_def assms(4) job_app_keywords_def by simp
  show ?thesis using a b c d by simp
qed

theorem C2_form_purpose_samples_witness:
  "detect_form_purpose [(EMAIL, blank_field EMAIL), (PASSWORD, blank_field PASSWORD)]
     = ''login'' \<and>
   detect_form_purpose
     [(EMAIL, blank_field EMAIL), (PASSWORD, blank_field PASSWORD),
      (RESUME_FILE, blank_field RESUME_FILE)] = ''job_application'' \<and>
   detect_form_purpose
     [(EMAIL, blank_field EMAIL), (PASSWORD, blank_field PASSWORD),
      (FIRST_NAME, blank_field FIRST_NAME)] = ''login'' \<and>
   detect_form_purpose
     [(EMAIL, blank_field EMAIL), (PASSWORD, blank_field PASSWORD),
      (FIRST_NAME, blank_field FIRST_NAME), (LAST_NAME, blank_field LAST_NAME)]
     = ''registration''"
  using C2_form_purpose_samples
    [of "[(EMAIL, blank_field EMAIL), (PASSWORD, blank_field PASSWORD)]"
        "[(EMAIL, blank_field EMAIL), (PASSWORD, blank_field PASSWORD),
          (RESUME_FILE, blank_field RESUME_FILE)]"
        "[(EMAIL, blank_field EMAIL), (PASSWORD, blank_field PASSWORD),
          (FIRST_NAME, blank_field FIRST_NAME)]"
        "[(EMAIL, blank_field EMAIL), (PASSWORD, blank_field PASSWORD),
          (FIRST_NAME, blank_field FIRST_NAME), (LAST_NAME, blank_field LAST_NAME)]"]
  by simp

section \<open>Bounds of the scorer\<close>

lemma round_half_even_bounds:
  assumes "0 \<le> z" and "z \<le> of_int n"
  shows "0 \<le> round_half_even z \<and> round_half_even z \<le> n"
proof -
  have f0: "0 \<le> \<lfloor>z\<rfloor>" using assms(1) by simp
  have fn: "\<lfloor>z\<rfloor> \<le> n" using assms(2) by (simp add: floor_le_iff) 
  show ?thesis
  proof (cases "z = of_int n")
    case True
    then show ?thesis using assms(1) by (simp add: round_half_even_def)
  next
    case False
    then have "z < of_int n" using assms(2) by simp
    then have "\<lfloor>z\<rfloor> < n" by (simp add: floor_less_iff)
    then show ?thesis using f0 by (auto simp: round_half_even_def Let_def)
  qed
qed

lemma round3_bounds:
  assumes "0 \<le> x" and "x \<le> 1"
  shows "0 \<le> round3 x \<and> round3 x \<le> 1"
proof -
  have "0 \<le> x * 1000" using assms(1) by simp
  moreover have "x * 1000 \<le> of_int 1000" using assms(2) by simp
  ultimately have "0 \<le> round_half_even (x * 1000) \<and> round_half_even (x * 1000) \<le> 1000"
    by (rule round_half_even_bounds)
  then show ?thesis by (simp add: round3_def)
qed

lemma max_possible_score_pos: "0 < max_possible_score ps"
proof -
  have w: "\<forall>kw \<in> set default_attribute_weights. 0 \<le> snd kw"
    by (simp add: default_attribute_weights_def)
  have "0 \<le> sum_list (map snd (filter (\<lambda>kw. fst kw \<in> set (map fst ps) \<or> fst kw = ''type'') default_attribute_weights))"
    by (rule sum_list_nonneg) (use w in auto)
  then show ?thesis
    by (simp add: max_possible_score_def Let_def)
qed

lemma calculate_confidence_bounds:
  "0 \<le> calculate_confidence e ps ft \<and> calculate_confidence e ps ft \<le> 1"
proof -
  let ?n = "if 0 < raw_score e ps ft then min (raw_score e ps ft / max_possible_score ps) 1 else 0"
  have "0 \<le> ?n \<and> ?n \<le> 1"
    using max_possible_score_pos[of ps] by (auto simp: min_def)
  then show ?thesis
    unfolding calculate_confidence_def Let_def using round3_bounds by blast
qed

section \<open>Conflict resolution: grouping, winners, and the mapping\<close>

lemma map_of_dict_append:
  "map_of (dict_append k v d) k' =
     (if k' = k then Some ((case map_of d k of None \<Rightarrow> [] | Some l \<Rightarrow> l) @ [v])
      else map_of d k')"
  by (induction d) auto

lemma keys_dict_append: "fst ` set (dict_append k v d) = insert k (fst ` set d)"
  by (induction d) auto

lemma distinct_dict_append:
  "distinct (map fst d) \<Longrightarrow> distinct (map fst (dict_append k v d))"
proof (induction d)
  case Nil
  then show ?case by simp
next
  case (Cons p d)
  have "fst p \<noteq> k \<Longrightarrow> fst p \<notin> fst ` set (dict_append k v d)"
    using Cons.prems by (simp add: keys_dict_append)
  then show ?case using Cons by auto
qed

lemma group_by_snoc: "group_by key (xs @ [x]) = dict_append (key x) x (group_by key xs)"
  by (simp add: group_by_def)

lemma distinct_group_by: "distinct (map fst (group_by key xs))"
proof (induction xs rule: rev_induct)
  case Nil
  then show ?case by (simp add: group_by_def)
next
  case (snoc x xs)
  then show ?case by (simp add: group_by_snoc distinct_dict_append)
qed

lemma map_of_group_by:
  "map_of (group_by key xs) k =
     (if k \<in> key ` set xs then Some (filter (\<lambda>x. key x = k) xs) else None)"
proof (induction xs rule: rev_induct)
  case Nil
  then show ?case by (simp add: group_by_def)
next
  case (snoc x xs)
  have f: "k \<notin> key ` set xs \<Longrightarrow> filter (\<lambda>y. key y = k) xs = []"
    by (auto simp: filter_empty_conv)
  show ?case
  proof (cases "k = key x")
    case True
    have "map_of (group_by key xs) k = None \<or>
          map_of (group_by key xs) k = Some (filter (\<lambda>y. key y = k) xs)"
      using snoc.IH by simp
    then have "(case map_of (group_by key xs) k of None \<Rightarrow> [] | Some l \<Rightarrow> l)
               = filter (\<lambda>y. key y = k) xs"
      using snoc.IH f by (auto split: if_splits)
    then show ?thesis
      using True by (simp add: group_by_snoc map_of_dict_append)
  next
    case False
    then show ?thesis
      using snoc.IH by (auto simp: group_by_snoc map_of_dict_append)
  qed
qed

lemma group_by_member:
  assumes "(k, l) \<in> set (group_by key xs)"
  shows "l = filter (\<lambda>x. key x = k) xs \<and> k \<in> key ` set xs"
proof -
  have "map_of (group_by key xs) k = Some l"
    using assms distinct_group_by[of key xs] by simp
  then show ?thesis
    by (simp add: map_of_group_by split: if_splits)
qed

lemma sort_by_confidence_head:
  assumes "sort_by_confidence l = b # rest"
  shows "b \<in> set l \<and> (\<forall>x \<in> set l. confidence x \<le> confidence b)"
proof -
  have s: "set (sort_by_confidence l) = set l"
    by (simp add: sort_by_confidence_def)
  have "sorted (map (\<lambda>ff. - confidence ff) (sort_by_confidence l))"
    by (simp add: sort_by_confidence_def)
  then have "\<forall>x \<in> set rest. - confidence b \<le> - confidence x"
    using assms by simp
  then have "\<forall>x \<in> set (b # rest). confidence x \<le> confidence b"
    by auto
  then show ?thesis using s assms by auto
qed

lemma best_of_groups_member:
  assumes "b \<in> set (best_of_groups gs)"
  shows "\<exists>g \<in> set gs. b \<in> set (snd g) \<and> (\<forall>x \<in> set (snd g). confidence x \<le> confidence b)"
  using assms
proof (induction gs)
  case Nil
  then show ?case by simp
next
  case (Cons g gs)
  show ?case
  proof (cases "sort_by_confidence (snd g)")
    case Nil
    then show ?thesis using Cons by auto
  next
    case (Cons h rest)
    from sort_by_confidence_head[OF this]
    show ?thesis using Cons.IH Cons.prems Cons by auto
  qed
qed

lemma best_of_groups_distinct:
  assumes "distinct (map fst gs)"
    and "\<forall>g \<in> set gs. \<forall>x \<in> set (snd g). ff_selector x = fst g"
  shows "distinct (map ff_selector (best_of_groups gs))"
  using assms
proof (induction gs)
  case Nil
  then show ?case by simp
next
  case (Cons g gs)
  have ih: "distinct (map ff_selector (best_of_groups gs))"
    using Cons by simp
  have other: "\<forall>b \<in> set (best_of_groups gs). ff_selector b \<noteq> fst g"
  proof
    fix b assume "b \<in> set (best_of_groups gs)"
    then obtain g' where g': "g' \<in> set gs" "b \<in> set (snd g')"
      using best_of_groups_member by blast
    then have "ff_selector b = fst g'" using Cons.prems(2) by simp
    moreover have "fst g \<notin> fst ` set gs" using Cons.prems(1) by simp
    then have "fst g' \<noteq> fst g" using g'(1) by (metis imageI)
    ultimately show "ff_selector b \<noteq> fst g" by simp
  qed
  show ?case
  proof (cases "sort_by_confidence (snd g)")
    case Nil
    then show ?thesis using ih by simp
  next
    case (Cons h rest)
    from sort_by_confidence_head[OF this] have "h \<in> set (snd g)" by simp
    then have "ff_selector h = fst g" using Cons.prems(2) by simp
    then show ?thesis using ih other Cons by auto
  qed
qed

lemma best_candidates_member:
  assumes "b \<in> set (best_candidates_per_element candidates)"
  shows "b \<in> set candidates \<and>
         (\<forall>c \<in> set candidates. ff_selector c = ff_selector b \<longrightarrow> confidence c \<le> confidence b)"
proof -
  obtain g where g: "g \<in> set (group_by ff_selector candidates)" "b \<in> set (snd g)"
      "\<forall>x \<in> set (snd g). confidence x \<le> confidence b"
    using assms best_of_groups_member unfolding best_candidates_per_element_def by blast
  have "(fst g, snd g) \<in> set (group_by ff_selector candidates)" using g(1) by simp
  from group_by_member[OF this]
  have l: "snd g = filter (\<lambda>x. ff_selector x = fst g) candidates" by simp
  then have "b \<in> set candidates" "ff_selector b = fst g" using g(2) by auto
  then show ?thesis using g(3) l by auto
qed

lemma best_candidates_distinct:
  "distinct (map ff_selector (best_candidates_per_element candidates))"
  unfolding best_candidates_per_element_def
proof (rule best_of_groups_distinct)
  show "distinct (map fst (group_by ff_selector candidates))" by (rule distinct_group_by)
  show "\<forall>g \<in> set (group_by ff_selector candidates). \<forall>x \<in> set (snd g). ff_selector x = fst g"
  proof
    fix g assume "g \<in> set (group_by ff_selector candidates)"
    then have "(fst g, snd g) \<in> set (group_by ff_selector candidates)" by simp
    from group_by_member[OF this]
    show "\<forall>x \<in> set (snd g). ff_selector x = fst g" by auto
  qed
qed

lemma set_dict_set: "set (dict_set k v d) \<subseteq> insert (k, v) (set d)"
  by (induction d) auto

lemma keys_dict_set: "fst ` set (dict_set k v d) = insert k (fst ` set d)"
  by (induction d) auto

lemma distinct_dict_set: "distinct (map fst d) \<Longrightarrow> distinct (map fst (dict_set k v d))"
proof (induction d)
  case Nil
  then show ?case by simp
next
  case (Cons p d)
  have "fst p \<noteq> k \<Longrightarrow> fst p \<notin> fst ` set (dict_set k v d)"
    using Cons.prems by (simp add: keys_dict_set)
  then show ?case using Cons by auto
qed

lemma resolve_step_inv:
  assumes "distinct (map fst r)" and "\<forall>p \<in> set r. entry_ok cfg gs p" and "g \<in> set gs"
  shows "distinct (map fst (resolve_step cfg r g)) \<and>
         (\<forall>p \<in> set (resolve_step cfg r g). entry_ok cfg gs p)"
proof (cases "sort_by_confidence (snd g)")
  case Nil
  then show ?thesis using assms by (simp add: resolve_step_def)
next
  case (Cons b rest)
  from sort_by_confidence_head[OF this]
  have b: "b \<in> set (snd g)" "\<forall>x \<in> set (snd g). confidence x \<le> confidence b" by auto
  show ?thesis
  proof (cases "resolve_step cfg r g = r")
    case True
    then show ?thesis using assms by simp
  next
    case False
    then have eq: "resolve_step cfg r g = dict_set (fst g) b r" and th: "threshold cfg \<le> confidence b"
      using Cons by (auto simp: resolve_step_def split: if_splits option.splits)
    have "entry_ok cfg gs (fst g, b)"
      using b th assms(3) unfolding entry_ok_def by auto
    then have "\<forall>p \<in> set (dict_set (fst g) b r). entry_ok cfg gs p"
      using assms(2) set_dict_set[of "fst g" b r] by auto
    then show ?thesis using eq assms(1) by (simp add: distinct_dict_set)
  qed
qed

lemma resolve_fold_inv:
  assumes "distinct (map fst r)" and "\<forall>p \<in> set r. entry_ok cfg gs p" and "set hs \<subseteq> set gs"
  shows "distinct (map fst (foldl (resolve_step cfg) r hs)) \<and>
         (\<forall>p \<in> set (foldl (resolve_step cfg) r hs). entry_ok cfg gs p)"
  using assms
proof (induction hs arbitrary: r)
  case Nil
  then show ?case by simp
next
  case (Cons h hs)
  have "h \<in> set gs" using Cons.prems(3) by simp
  from resolve_step_inv[OF Cons.prems(1) Cons.prems(2) this]
  have "distinct (map fst (resolve_step cfg r h))"
    and "\<forall>p \<in> set (resolve_step cfg r h). entry_ok cfg gs p" by auto
  then show ?case using Cons.IH[of "resolve_step cfg r h"] Cons.prems(3) by simp
qed

lemma resolved_entry:
  assumes "p \<in> set (resolve_field_conflicts cfg candidates)"
  shows "field_type (snd p) = fst p \<and>
         snd p \<in> set (best_candidates_per_element candidates) \<and>
         threshold cfg \<le> confidence (snd p) \<and>
         (\<forall>c \<in> set (best_candidates_per_element candidates).
            field_type c = fst p \<longrightarrow> confidence c \<le> confidence (snd p))"
proof -
  let ?gs = "group_by field_type (best_candidates_per_element candidates)"
  have "\<forall>p \<in> set (foldl (resolve_step cfg) [] ?gs). entry_ok cfg ?gs p"
    using resolve_fold_inv[of "[]" cfg ?gs ?gs] by simp
  then have "entry_ok cfg ?gs p"
    using assms unfolding resolve_field_conflicts_def by blast
  then obtain g where g: "g \<in> set ?gs" "fst g = fst p" "snd p \<in> set (snd g)"
      "\<forall>x \<in> set (snd g). confidence x \<le> confidence (snd p)"
      "threshold cfg \<le> confidence (snd p)"
    unfolding entry_ok_def by blast
  have "(fst g, snd g) \<in> set ?gs" using g(1) by simp
  from group_by_member[OF this]
  have l: "snd g = filter (\<lambda>x. field_type x = fst g) (best_candidates_per_element candidates)"
    by simp
  show ?thesis using g l by auto
qed

lemma resolved_distinct: "distinct (map fst (resolve_field_conflicts cfg candidates))"
  unfolding resolve_field_conflicts_def
  using resolve_fold_inv[of "[]" cfg
      "group_by field_type (best_candidates_per_element candidates)"
      "group_by field_type (best_candidates_per_element candidates)"]
  by simp


text \<open>
  C7, amended: the mapping has one descriptor per field type, no selector is the descriptor
  of two field types, and every descriptor has its own type, is one of the per-selector
  winners of phase 1, meets the threshold, and has the highest confidence among the phase-1
  winners of its type; a phase-1 winner is a candidate of highest confidence for its
  selector.
\<close>

theorem C7_resolve_field_conflicts:
  "distinct (map fst (resolve_field_conflicts cfg candidates)) \<and>
   (\<forall>p \<in> set (resolve_field_conflicts cfg candidates).
    \<forall>q \<in> set (resolve_field_conflicts cfg candidates).
      fst p \<noteq> fst q \<longrightarrow> ff_selector (snd p) \<noteq> ff_selector (snd q)) \<and>
   (\<forall>p \<in> set (resolve_field_conflicts cfg candidates).
      field_type (snd p) = fst p \<and>
      snd p \<in> set (best_candidates_per_element candidates) \<and>
      threshold cfg \<le> confidence (snd p) \<and>
      (\<forall>c \<in> set (best_candidates_per_element candidates).
         field_type c = fst p \<longrightarrow> confidence c \<le> confidence (snd p))) \<and>
   (\<forall>b \<in> set (best_candidates_per_element candidates).
      b \<in> set candidates \<and>
      (\<forall>c \<in> set candidates.
         ff_selector c = ff_selector b \<longrightarrow> confidence c \<le> confidence b))"
proof -
  let ?R = "resolve_field_conflicts cfg candidates"
  let ?B = "best_candidates_per_element candidates"
  have sel: "\<forall>p \<in> set ?R. \<forall>q \<in> set ?R. fst p \<noteq> fst q \<longrightarrow> ff_selector (snd p) \<noteq> ff_selector (snd q)"
  proof (intro ballI impI)
    fix p q assume p: "p \<in> set ?R" and q: "q \<in> set ?R" and ne: "fst p \<noteq> fst q"
    have "snd p \<in> set ?B" "snd q \<in> set ?B" "field_type (snd p) = fst p" "field_type (snd q) = fst q"
      using resolved_entry[OF p] resolved_entry[OF q] by auto
    moreover from this ne have "snd p \<noteq> snd q" by auto
    ultimately show "ff_selector (snd p) \<noteq> ff_selector (snd q)"
      using best_candidates_distinct[of candidates] by (auto simp: distinct_map inj_on_def)
  qed
  show ?thesis
    using resolved_distinct sel resolved_entry best_candidates_member by blast
qed

lemma resolved_subset:
  assumes "p \<in> set (resolve_field_conflicts cfg candidates)"
  shows "snd p \<in> set candidates"
  using resolved_entry[OF assms] best_candidates_member by blast

lemma scan_element_button:
  assumes "scan_element cfg i el = ActionButton b ff"
  shows "confidence ff = 17 / 20"
  using assms
  by (auto simp: scan_element_def button_field_def split: if_splits option.splits list.splits)

lemma scan_element_candidate:
  assumes "scan_element cfg i el = FieldCandidate ff"
  shows "0 \<le> confidence ff \<and> confidence ff \<le> 1"
proof -
  obtain e best rest where
    s: "sort_key (\<lambda>p. - fst p) (possible_types_for_element e) = best # rest"
    and c: "confidence ff = fst best"
    using assms
    by (auto simp: scan_element_def split: if_splits option.splits list.splits)
  have "best \<in> set (sort_key (\<lambda>p. - fst p) (possible_types_for_element e))"
    using s by simp
  then have "best \<in> set (possible_types_for_element e)" by simp
  then obtain ps ft where "fst best = calculate_confidence e ps ft"
    by (auto simp: possible_types_for_element_def)
  then show ?thesis using c calculate_confidence_bounds by simp
qed

lemma candidates_of_member: "ff \<in> set (candidates_of rs) \<Longrightarrow> FieldCandidate ff \<in> set rs"
  by (induction rs rule: candidates_of.induct) auto

lemma buttons_of_member: "ff \<in> set (buttons_of k rs) \<Longrightarrow> ActionButton k ff \<in> set rs"
  by (induction k rs rule: buttons_of.induct) (auto split: if_splits)

lemma scan_results_bounds:
  assumes "r \<in> set (map (\<lambda>p. scan_element cfg (fst p) (snd p)) (zip [0 ..< length els] els))"
  shows "(\<forall>ff. r = FieldCandidate ff \<longrightarrow> 0 \<le> confidence ff \<and> confidence ff \<le> 1) \<and>
         (\<forall>b ff. r = ActionButton b ff \<longrightarrow> 0 \<le> confidence ff \<and> confidence ff \<le> 1)"
proof -
  obtain i el where r: "r = scan_element cfg i el" using assms by auto
  show ?thesis
    using scan_element_candidate[of cfg i el] scan_element_button[of cfg i el] r by auto
qed

section \<open>Confidence of every field of an analysis\<close>

text \<open>
  C6: every \<open>FormField\<close> of a page analysis, resolved field or action button of any of the
  three lists, has a confidence between 0 and 1.
\<close>

theorem C6_confidence_in_unit_interval:
  "\<forall>ff \<in> set (all_form_fields (detect_all_fields_on_page cfg all_elements)).
     0 \<le> confidence ff \<and> confidence ff \<le> 1"
proof
  fix ff
  let ?rs = "map (\<lambda>p. scan_element cfg (fst p) (snd p)) (zip [0 ..< length all_elements] all_elements)"
  assume "ff \<in> set (all_form_fields (detect_all_fields_on_page cfg all_elements))"
  then consider
      (field) "ff \<in> snd ` set (resolve_field_conflicts cfg (candidates_of ?rs))"
    | (button) k where "ff \<in> set (buttons_of k ?rs)"
    by (auto simp: all_form_fields_def detect_all_fields_on_page_def Let_def)
  then show "0 \<le> confidence ff \<and> confidence ff \<le> 1"
  proof cases
    case field
    then have "ff \<in> set (candidates_of ?rs)" using resolved_subset by auto
    then have "FieldCandidate ff \<in> set ?rs" by (rule candidates_of_member)
    then show ?thesis using scan_results_bounds by blast
  next
    case button
    then have "ActionButton k ff \<in> set ?rs" by (rule buttons_of_member)
    then show ?thesis using scan_results_bounds by blast
  qed
qed

text \<open>C6 on the sample page, which yields an e-mail field and a button.\<close>

theorem C6_confidence_in_unit_interval_witness:
  "all_form_fields (detect_all_fields_on_page sample_config sample_page) \<noteq> [] \<and>
   0 \<le> confidence (hd (all_form_fields (detect_all_fields_on_page sample_config sample_page))) \<and>
   confidence (hd (all_form_fields (detect_all_fields_on_page sample_config sample_page))) \<le> 1"
proof -
  have ne: "all_form_fields (detect_all_fields_on_page sample_config sample_page) \<noteq> []"
    by code_simp
  then have "hd (all_form_fields (detect_all_fields_on_page sample_config sample_page))
             \<in> set (all_form_fields (detect_all_fields_on_page sample_config sample_page))"
    by simp
  then show ?thesis
    using ne C6_confidence_in_unit_interval[of sample_config sample_page] by blast
qed

text \<open>
  C7, as stated: every descriptor is the highest-confidence candidate of its type. On the
  sample candidates the e-mail descriptor has confidence 1/2, while the e-mail candidate of
  confidence 9/10, above the threshold, lost its selector to the password candidate in
  phase 1.
\<close>

theorem C7_highest_candidate_counterexample:
  "map_of (resolve_field_conflicts sample_config sample_candidates) EMAIL
     = Some (cand ''input.contact'' EMAIL (1 / 2)) \<and>
   cand ''input'' EMAIL (9 / 10) \<in> set sample_candidates \<and>
   field_type (cand ''input'' EMAIL (9 / 10)) = EMAIL \<and>
   confidence (cand ''input.contact'' EMAIL (1 / 2)) < confidence (cand ''input'' EMAIL (9 / 10)) \<and>
   threshold sample_config \<le> confidence (cand ''input'' EMAIL (9 / 10))"
  by code_simp

text \<open>C7, amended, on the sample candidates.\<close>

theorem C7_resolve_field_conflicts_witness:
  "resolve_field_conflicts sample_config sample_candidates =
     [(PASSWORD, cand ''input'' PASSWORD (19 / 20)),
      (EMAIL, cand ''input.contact'' EMAIL (1 / 2))] \<and>
   distinct (map fst (resolve_field_conflicts sample_config sample_candidates)) \<and>
   ff_selector (cand ''input'' PASSWORD (19 / 20))
     \<noteq> ff_selector (cand ''input.contact'' EMAIL (1 / 2)) \<and>
   cand ''input.contact'' EMAIL (1 / 2) \<in> set (best_candidates_per_element sample_candidates) \<and>
   threshold sample_config \<le> confidence (cand ''input.contact'' EMAIL (1 / 2)) \<and>
   cand ''input.contact'' EMAIL (1 / 2) \<in> set sample_candidates"
proof -
  let ?R = "resolve_field_conflicts sample_config sample_candidates"
  let ?p = "(PASSWORD, cand ''input'' PASSWORD (19 / 20))"
  let ?q = "(EMAIL, cand ''input.contact'' EMAIL (1 / 2))"
  have r: "?R = [?p, ?q]" by code_simp
  have p: "?p \<in> set ?R" and q: "?q \<in> set ?R" using r by simp_all
  note c7 = C7_resolve_field_conflicts[of sample_config sample_candidates]
  have d: "distinct (map fst ?R)" using c7 by blast
  have "fst ?p \<noteq> fst ?q" by simp
  then have s: "ff_selector (snd ?p) \<noteq> ff_selector (snd ?q)" using c7 p q by blast
  have e: "snd ?q \<in> set (best_candidates_per_element sample_candidates) \<and>
           threshold sample_config \<le> confidence (snd ?q)"
    using c7 q by blast
  then have "snd ?q \<in> set sample_candidates" using c7 by blast
  then show ?thesis using r d s e by simp
qed

section \<open>Button intent: save and continue\<close>

text \<open>
  C1 says that a button labelled "Save and Continue" is classified as submit. The code
  classifies it as next: the two membership tests of the carve-out look for the regex
  source text, backslashes included, in the corpus.
\<close>

theorem C1_save_and_continue_classified_next:
  "classify_button (blank_data\<lparr>tag := ''button'', el_text := ''Save and Continue''\<rparr>)
     = Some ''next''"
  by code_simp

section \<open>The denominator of the scorer\<close>

text \<open>
  C5 says that the score is divided by the sum of the weights of the categories of the
  pattern set, plus a constant. The weights are keyed by singular names and the pattern
  sets by plural ones, so the code's sum only ever holds the weight of \<open>type\<close>: for the
  e-mail pattern set the code divides by 5, the specification by 17.8, and an element with
  only \<open>autocomplete="email"\<close> scores 0.7 instead of 0.197.
\<close>

theorem C5_denominator_ignores_pattern_categories:
  "max_possible_score email_patterns = 5 \<and>
   spec_max_possible_score email_patterns = 89 / 5 \<and>
   calculate_confidence (blank_data\<lparr>autocomplete := ''email''\<rparr>) email_patterns EMAIL = 7 / 10 \<and>
   spec_confidence (blank_data\<lparr>autocomplete := ''email''\<rparr>) email_patterns EMAIL = 197 / 1000"
  by code_simp

section \<open>An element with only autocomplete="email"\<close>

lemma types_group_text:
  "html_type e = ''text'' \<Longrightarrow> group_score e (''types'', [cat [Bol, lit ''email'', Eol]]) = 0"
  by (simp add: group_score_def attr_for_group_def re_search_def lower_def lower_char_def)

lemma autocompletes_group_email:
  "autocomplete e = ''email'' \<Longrightarrow>
   group_score e (''autocompletes'', [lit ''email'', lit ''username'']) = 7 / 2"
  by (simp add: group_score_def attr_for_group_def re_search_def lower_def lower_char_def
      weights_get_def weight_key_def default_attribute_weights_def)

lemma max_possible_score_email: "max_possible_score email_patterns = 5"
  by code_simp

lemma round3_seven_tenths: "round3 (7 / 10) = 7 / 10"
  by code_simp

text \<open>
  C8: for an element with \<open>autocomplete="email"\<close> and input type text, none of whose other
  attributes matches a pattern of the e-mail set or a negative pattern, the e-mail
  confidence is 0.7, above the floor of 0.15, and the element is admitted as an e-mail
  candidate.
\<close>

theorem C8_autocomplete_email_admitted:
  assumes "autocomplete e = ''email''" and "html_type e = ''text''"
    and "\<forall>g \<in> set email_patterns.
           fst g \<notin> {''autocompletes'', ''types''} \<longrightarrow> group_score e g = 0"
    and "\<not> penalty_applied e EMAIL"
  shows "calculate_confidence e email_patterns EMAIL = 7 / 10 \<and>
         3 / 20 < calculate_confidence e email_patterns EMAIL \<and>
         (7 / 10, EMAIL) \<in> set (possible_types_for_element e)"
proof -
  have g: "sum_list (map (group_score e) email_patterns) = 7 / 2"
    using assms(3) types_group_text[OF assms(2)] autocompletes_group_email[OF assms(1)]
    by (simp add: email_patterns_def)
  have tb: "type_bonus e EMAIL = 0"
    using assms(2) by (simp add: type_bonus_def lower_def lower_char_def)
  have rs: "raw_score e email_patterns EMAIL = 7 / 2"
    using g tb assms(4) by (simp add: raw_score_def)
  have n: "min ((7 / 2) / 5) (1 :: rat) = 7 / 10" by simp
  have c: "calculate_confidence e email_patterns EMAIL = 7 / 10"
    unfolding calculate_confidence_def Let_def rs max_possible_score_email n
    by (simp add: round3_seven_tenths)
  have m: "(EMAIL, email_patterns) \<in> set default_field_patterns"
    by (simp add: default_field_patterns_def)
  have "(calculate_confidence e email_patterns EMAIL, EMAIL)
          \<in> (\<lambda>p. (calculate_confidence e (snd p) (fst p), fst p)) ` set default_field_patterns"
    using m by (rule rev_image_eqI) simp
  then have "(7 / 10, EMAIL) \<in> set (possible_types_for_element e)"
    unfolding possible_types_for_element_def using c by simp
  then show ?thesis using c by simp
qed

text \<open>C8 on the blank input with \<open>autocomplete="email"\<close>.\<close>

theorem C8_autocomplete_email_admitted_witness:
  "calculate_confidence (blank_data\<lparr>autocomplete := ''email''\<rparr>) email_patterns EMAIL = 7 / 10 \<and>
   3 / 20 < calculate_confidence (blank_data\<lparr>autocomplete := ''email''\<rparr>) email_patterns EMAIL \<and>
   (7 / 10, EMAIL) \<in> set (possible_types_for_element (blank_data\<lparr>autocomplete := ''email''\<rparr>))"
proof -
  let ?e = "blank_data\<lparr>autocomplete := ''email''\<rparr>"
  have 1: "autocomplete ?e = ''email''" by simp
  have 2: "html_type ?e = ''text''" by (simp add: blank_data_def)
  have 3: "\<forall>g \<in> set email_patterns.
             fst g \<notin> {''autocompletes'', ''types''} \<longrightarrow> group_score ?e g = 0"
    by (simp add: email_patterns_def group_score_def attr_for_group_def blank_data_def)
  have 4: "\<not> penalty_applied ?e EMAIL" by code_simp
  show ?thesis using C8_autocomplete_email_admitted[OF 1 2 3 4] .
qed

section \<open>DOM stability: the quiet window after the last critical mutation\<close>




















section \<open>Detection of a decision point\<close>

lemma find_dp_detected:
  assumes "find (dp_detected page) dps = Some dp"
  shows "dp \<in> set dps \<and> dp_detected page dp"
  using assms by (auto simp: find_Some_iff)

text \<open>
  C3, amended: a decision point is reported only if it is one of the handler's, a URL
  pattern or a text indicator matches, and, when it lists expected button texts, the number
  of them found on the page is at least half the length of the list rounded down, with a
  floor of 1: for three expected texts one suffices. Conversely some decision point is
  reported as soon as one of the handler's meets these conditions.
\<close>

theorem C3_detect_decision_point:
  "(detect_decision_point h page = Some dp \<longrightarrow>
      dp \<in> set (decision_points h) \<and>
      (url_match page dp \<or> text_match page dp) \<and>
      (button_options_texts (criteria dp) \<noteq> [] \<longrightarrow>
         1 \<le> actual_buttons_found_count page dp \<and>
         length (button_options_texts (criteria dp)) div 2
           \<le> actual_buttons_found_count page dp) \<and>
      (length (button_options_texts (criteria dp)) = 3 \<longrightarrow>
         1 \<le> actual_buttons_found_count page dp)) \<and>
   ((\<exists>p \<in> set (decision_points h).
       (url_match page p \<or> text_match page p) \<and>
       (button_options_texts (criteria p) = [] \<or>
        (1 \<le> actual_buttons_found_count page p \<and>
         length (button_options_texts (criteria p)) div 2
           \<le> actual_buttons_found_count page p)))
    \<longrightarrow> detect_decision_point h page \<noteq> None)"
proof -
  have a: "dp \<in> set (decision_points h) \<and> dp_detected page dp"
    if "detect_decision_point h page = Some dp"
    using that find_dp_detected unfolding detect_decision_point_def by blast
  have b: "dp_detected page p \<longleftrightarrow>
             (url_match page p \<or> text_match page p) \<and>
             (button_options_texts (criteria p) = [] \<or>
              (1 \<le> actual_buttons_found_count page p \<and>
               length (button_options_texts (criteria p)) div 2
                 \<le> actual_buttons_found_count page p))" for p
    by (auto simp: dp_detected_def Let_def)
  have c: "detect_decision_point h page \<noteq> None"
    if "p \<in> set (decision_points h)" "dp_detected page p" for p
    using that unfolding detect_decision_point_def by (auto simp: find_None_iff)
  show ?thesis using a b c by (metis length_0_conv zero_neq_numeral)
qed

text \<open>
  C3, as stated: for three expected button texts at least two must be present. The Workday
  method-selection point lists three and is detected on a page that shows one of them.
\<close>

theorem C3_three_expected_one_present_counterexample:
  "detect_decision_point manual_handler workday_page = Some workday_point \<and>
   length (button_options_texts (criteria workday_point)) = 3 \<and>
   actual_buttons_found_count workday_page workday_point = 1"
  by code_simp

text \<open>C3, amended, on the Workday page.\<close>

theorem C3_detect_decision_point_witness:
  "detect_decision_point manual_handler workday_page = Some workday_point \<and>
   workday_point \<in> set (decision_points manual_handler) \<and>
   (url_match workday_page workday_point \<or> text_match workday_page workday_point) \<and>
   1 \<le> actual_buttons_found_count workday_page workday_point"
proof -
  have d: "detect_decision_point manual_handler workday_page = Some workday_point"
    by code_simp
  have n: "length (button_options_texts (criteria workday_point)) = 3"
    by code_simp
  show ?thesis
    using d n C3_detect_decision_point[of manual_handler workday_page workday_point]
    by blast
qed

section \<open>Resolution of a decision point\<close>

lemma try_elements_cases:
  assumes "try_elements dn cn sel i els h = (r, h', ev)"
  shows "(\<not> r \<and> h' = h \<and> ev = []) \<or>
         (\<exists>j < length els. clickable (els ! j) \<and> r = wait_succeeds (els ! j) \<and>
            h' = store_decision h dn cn \<and> ev = [Clicked sel (i + j), Stored dn cn])"
  using assms
proof (induction els arbitrary: i)
  case Nil
  then show ?case by simp
next
  case (Cons el els)
  show ?case
  proof (cases "clickable el")
    case True
    then have "r = wait_succeeds el \<and> h' = store_decision h dn cn \<and>
               ev = [Clicked sel i, Stored dn cn]"
      using Cons.prems by (auto simp: clickable_def)
    then show ?thesis using True by (intro disjI2 exI[of _ 0]) simp
  next
    case False
    then have "try_elements dn cn sel i (el # els) h = (False, h, []) \<or>
               try_elements dn cn sel i (el # els) h = try_elements dn cn sel (Suc i) els h"
      by (cases "is_visible el"; cases "is_enabled el")
         (auto simp: clickable_def split: bool.splits)
    then consider
        (stop) "try_elements dn cn sel i (el # els) h = (False, h, [])"
      | (skip) "try_elements dn cn sel i (el # els) h = try_elements dn cn sel (Suc i) els h"
      by blast
    then show ?thesis
    proof cases
      case stop
      then show ?thesis using Cons.prems by simp
    next
      case skip
      then have "try_elements dn cn sel (Suc i) els h = (r, h', ev)"
        using Cons.prems by simp
      from Cons.IH[OF this] show ?thesis
      proof
        assume "\<not> r \<and> h' = h \<and> ev = []"
        then show ?thesis by simp
      next
        assume "\<exists>j < length els. clickable (els ! j) \<and> r = wait_succeeds (els ! j) \<and>
            h' = store_decision h dn cn \<and> ev = [Clicked sel (Suc i + j), Stored dn cn]"
        then obtain j where "j < length els" "clickable (els ! j)"
          "r = wait_succeeds (els ! j)" "h' = store_decision h dn cn"
          "ev = [Clicked sel (Suc i + j), Stored dn cn]" by blast
        then show ?thesis by (intro disjI2 exI[of _ "Suc j"]) simp
      qed
    qed
  qed
qed

lemma try_elements_none_clickable:
  assumes "\<not> list_ex clickable els"
  shows "try_elements dn cn sel i els h = (False, h, [])"
proof -
  obtain r h' ev where t: "try_elements dn cn sel i els h = (r, h', ev)"
    by (cases "try_elements dn cn sel i els h") auto
  from try_elements_cases[OF t] assms show ?thesis
    using t by (auto simp: list_ex_iff)
qed

lemma try_elements_true:
  assumes "try_elements dn cn sel i els h = (True, h', ev)"
  shows "ev \<noteq> []"
  using try_elements_cases[OF assms] by auto

lemma try_elements_failed:
  assumes "try_elements dn cn sel i els h = (False, h', ev)"
    and "\<not> list_ex (\<lambda>el. clickable el \<and> \<not> wait_succeeds el) els"
  shows "h' = h \<and> ev = []"
  using try_elements_cases[OF assms(1)] assms(2) by (auto simp: list_ex_iff)

lemma stores_follow_clicks_append:
  assumes "stores_follow_clicks page S dn cn ev1" and "stores_follow_clicks page S dn cn ev2"
  shows "stores_follow_clicks page S dn cn (ev1 @ ev2)"
  using assms
  by (induction page S dn cn ev1 rule: stores_follow_clicks.induct) auto

lemma replay_append: "replay h (ev1 @ ev2) = replay (replay h ev1) ev2"
  by (induction h ev1 rule: replay.induct) auto

lemma try_selectors_trace:
  assumes "try_selectors dn cn page sels h = (r, h', ev)" and "set sels \<subseteq> set S"
  shows "stores_follow_clicks page S dn cn ev \<and> h' = replay h ev"
  using assms
proof (induction sels arbitrary: h r h' ev)
  case Nil
  then show ?case by simp
next
  case (Cons sel sels)
  show ?case
  proof (cases "locator_all page sel")
    case None
    then have "try_selectors dn cn page sels h = (r, h', ev)" using Cons.prems(1) by simp
    then show ?thesis using Cons.IH Cons.prems(2) by simp
  next
    case (Some els)
    obtain r1 h1 ev1 where t1: "try_elements dn cn sel 0 els h = (r1, h1, ev1)"
      by (cases "try_elements dn cn sel 0 els h") auto
    have first: "stores_follow_clicks page S dn cn ev1 \<and> h1 = replay h ev1"
      using try_elements_cases[OF t1] Some Cons.prems(2) by auto
    show ?thesis
    proof (cases r1)
      case True
      then have "h' = h1" "ev = ev1" using Cons.prems(1) Some t1 by simp_all
      then show ?thesis using first by simp
    next
      case False
      obtain r2 h2 ev2 where t2: "try_selectors dn cn page sels h1 = (r2, h2, ev2)"
        by (cases "try_selectors dn cn page sels h1") auto
      have rest: "stores_follow_clicks page S dn cn ev2 \<and> h2 = replay h1 ev2"
        using Cons.IH[OF t2] Cons.prems(2) by simp
      have "h' = h2" "ev = ev1 @ ev2" using Cons.prems(1) Some t1 t2 False by simp_all
      then show ?thesis
        using first rest by (simp add: stores_follow_clicks_append replay_append)
    qed
  qed
qed

lemma try_selectors_none_clickable:
  assumes "\<not> any_clickable page sels"
  shows "try_selectors dn cn page sels h = (False, h, [])"
  using assms
proof (induction sels)
  case Nil
  then show ?case by simp
next
  case (Cons sel sels)
  then have rest: "try_selectors dn cn page sels h = (False, h, [])"
    by (simp add: any_clickable_def)
  show ?case
  proof (cases "locator_all page sel")
    case None
    then show ?thesis using rest by simp
  next
    case (Some els)
    then have "\<not> list_ex clickable els" using Cons.prems by (simp add: any_clickable_def)
    then have "try_elements dn cn sel 0 els h = (False, h, [])"
      by (rule try_elements_none_clickable)
    then show ?thesis using Some rest by simp
  qed
qed

lemma try_selectors_true:
  assumes "try_selectors dn cn page sels h = (True, h', ev)"
  shows "ev \<noteq> []"
  using assms
proof (induction sels arbitrary: h h' ev)
  case Nil
  then show ?case by simp
next
  case (Cons sel sels)
  show ?case
  proof (cases "locator_all page sel")
    case None
    then have "try_selectors dn cn page sels h = (True, h', ev)" using Cons.prems by simp
    then show ?thesis by (rule Cons.IH)
  next
    case (Some els)
    obtain r1 h1 ev1 where t1: "try_elements dn cn sel 0 els h = (r1, h1, ev1)"
      by (cases "try_elements dn cn sel 0 els h") auto
    show ?thesis
    proof (cases r1)
      case True
      then have "ev = ev1" using Cons.prems Some t1 by simp
      moreover have "try_elements dn cn sel 0 els h = (True, h1, ev1)" using t1 True by simp
      ultimately show ?thesis using try_elements_true by blast
    next
      case False
      obtain r2 h2 ev2 where t2: "try_selectors dn cn page sels h1 = (r2, h2, ev2)"
        by (cases "try_selectors dn cn page sels h1") auto
      have "r2" "ev = ev1 @ ev2" using Cons.prems Some t1 t2 False by simp_all
      then show ?thesis using Cons.IH[of h1 h2 ev2] t2 by simp
    qed
  qed
qed

lemma try_selectors_failed:
  assumes "try_selectors dn cn page sels h = (False, h', ev)"
    and "\<not> any_wait_fails page sels"
  shows "h' = h \<and> ev = []"
  using assms
proof (induction sels arbitrary: h h' ev)
  case Nil
  then show ?case by simp
next
  case (Cons sel sels)
  have rest: "\<not> any_wait_fails page sels"
    using Cons.prems(2) by (simp add: any_wait_fails_def)
  show ?case
  proof (cases "locator_all page sel")
    case None
    then have "try_selectors dn cn page sels h = (False, h', ev)" using Cons.prems(1) by simp
    then show ?thesis using Cons.IH rest by simp
  next
    case (Some els)
    have els: "\<not> list_ex (\<lambda>el. clickable el \<and> \<not> wait_succeeds el) els"
      using Cons.prems(2) Some by (simp add: any_wait_fails_def)
    obtain r1 h1 ev1 where t1: "try_elements dn cn sel 0 els h = (r1, h1, ev1)"
      by (cases "try_elements dn cn sel 0 els h") auto
    have r1: "\<not> r1" using Cons.prems(1) Some t1 by (cases r1) auto
    then have first: "h1 = h \<and> ev1 = []" using try_elements_failed[OF _ els] t1 by simp
    obtain r2 h2 ev2 where t2: "try_selectors dn cn page sels h1 = (r2, h2, ev2)"
      by (cases "try_selectors dn cn page sels h1") auto
    have e: "r2 = False" "h' = h2" "ev = ev1 @ ev2"
      using Cons.prems(1) Some t1 t2 r1 by simp_all
    then have "h2 = h1 \<and> ev2 = []" using Cons.IH[of h1 h2 ev2] t2 rest by simp
    then show ?thesis using first e by simp
  qed
qed

text \<open>
  C10 says that a failed resolution never writes a preference. On the Workday page on
  which the autofill link is clicked and the wait after the click raises,
  \<open>handle_decision_point\<close> returns \<open>False\<close>, and the choice is in the in-memory mapping and
  in the preferences file, which were empty and missing before.
\<close>

theorem C10_failed_resolution_writes_preference_counterexample:
  "prefs fresh_handler = \<lparr>decisions = Some []\<rparr> \<and>
   preferences_file fresh_handler = Missing \<and>
   handle_decision_point fresh_handler workday_page_wait_fails workday_point True
     = (False,
        fresh_handler
          \<lparr>prefs :=
             \<lparr>decisions =
                Some [(''workday_application_method_selection'', ''autofill_resume_workday'')]\<rparr>,
           preferences_file :=
             Content
               \<lparr>decisions =
                  Some [(''workday_application_method_selection'',
                         ''autofill_resume_workday'')]\<rparr>\<rparr>,
        [Clicked ''a[data-automation-id='autofillWithResume']'' 0,
         Stored ''workday_application_method_selection'' ''autofill_resume_workday''])"
  by code_simp

text \<open>
  C10, amended: whatever \<open>handle_decision_point\<close> returns, the handler afterwards is the one
  before with the store events of the trace applied, so without a store event the in-memory
  mapping and the preferences file are unchanged; every store event records the chosen
  option and comes right after the click of a visible, enabled, clickable element of one of
  that option's selectors; a result \<open>True\<close> comes with such a click; if no option is
  selected, or no element of the selected option's selectors is visible, enabled and
  clickable, the result is \<open>False\<close> with the handler unchanged and nothing done; and a
  result \<open>False\<close> leaves the handler unchanged with nothing done unless some clickable
  element of the selected option's selectors is one after whose click the wait raises.
\<close>

theorem C10_preference_written_only_after_click:
  assumes "handle_decision_point h page dp auto_select = (r, h', ev)"
  shows "h' = replay h ev \<and>
         (ev = [] \<longrightarrow> h' = h) \<and>
         (\<forall>od. selected_option_definition h dp auto_select = Some od \<longrightarrow>
            stores_follow_clicks page (selectors od) (dp_name dp) (opt_name od) ev) \<and>
         (r \<longrightarrow> ev \<noteq> []) \<and>
         (selected_option_definition h dp auto_select = None \<longrightarrow> \<not> r \<and> h' = h \<and> ev = []) \<and>
         (\<forall>od. selected_option_definition h dp auto_select = Some od \<and>
               \<not> any_clickable page (selectors od) \<longrightarrow> \<not> r \<and> h' = h \<and> ev = []) \<and>
         (\<forall>od. selected_option_definition h dp auto_select = Some od \<and>
               \<not> any_wait_fails page (selectors od) \<and> \<not> r \<longrightarrow> h' = h \<and> ev = [])"
proof (cases "selected_option_definition h dp auto_select")
  case None
  then show ?thesis using assms by (simp add: handle_decision_point_def)
next
  case (Some od)
  then have t: "try_selectors (dp_name dp) (opt_name od) page (selectors od) h = (r, h', ev)"
    using assms by (simp add: handle_decision_point_def)
  have tr: "stores_follow_clicks page (selectors od) (dp_name dp) (opt_name od) ev \<and>
            h' = replay h ev"
    using try_selectors_trace[OF t subset_refl] by simp
  have nc: "\<not> any_clickable page (selectors od) \<Longrightarrow> \<not> r \<and> h' = h \<and> ev = []"
    using t try_selectors_none_clickable[of page "selectors od" "dp_name dp" "opt_name od" h]
    by simp
  have ok: "ev \<noteq> []" if r
  proof -
    have "try_selectors (dp_name dp) (opt_name od) page (selectors od) h = (True, h', ev)"
      using t that by simp
    then show ?thesis by (rule try_selectors_true)
  qed
  have nw: "h' = h \<and> ev = []" if "\<not> any_wait_fails page (selectors od)" and "\<not> r"
  proof -
    have "try_selectors (dp_name dp) (opt_name od) page (selectors od) h = (False, h', ev)"
      using t that(2) by simp
    then show ?thesis using that(1) by (rule try_selectors_failed)
  qed
  show ?thesis using Some tr nc ok nw by auto
qed

text \<open>
  C10, amended, on the Workday page: with nothing to click, with and without
  \<open>auto_select\<close>; with a first link that raises when asked whether it is visible; and with
  a link that is clicked.
\<close>

theorem C10_preference_written_only_after_click_witness:
  "handle_decision_point fresh_handler workday_page_no_links workday_point True
     = (False, fresh_handler, []) \<and>
   handle_decision_point fresh_handler workday_page_no_links workday_point False
     = (False, fresh_handler, []) \<and>
   handle_decision_point fresh_handler workday_page_visibility_raises workday_point True
     = (False, fresh_handler, []) \<and>
   (case handle_decision_point fresh_handler workday_page_no_heading workday_point True of
      (r, h', ev) \<Rightarrow>
        r \<and> ev \<noteq> [] \<and> h' = replay fresh_handler ev \<and>
        stores_follow_clicks workday_page_no_heading (selectors (hd (options workday_point)))
          (dp_name workday_point) (opt_name (hd (options workday_point))) ev)"
proof -
  have s: "selected_option_definition fresh_handler workday_point True
             = Some (hd (options workday_point))"
    by code_simp
  obtain r h' ev where
    t: "handle_decision_point fresh_handler workday_page_no_links workday_point True
          = (r, h', ev)"
    by (cases "handle_decision_point fresh_handler workday_page_no_links workday_point True")
       auto
  have n: "\<not> any_clickable workday_page_no_links (selectors (hd (options workday_point)))"
    by code_simp
  have 1: "\<not> r \<and> h' = fresh_handler \<and> ev = []"
    using C10_preference_written_only_after_click[OF t] s n by blast
  obtain r2 h2 ev2 where
    t2: "handle_decision_point fresh_handler workday_page_no_links workday_point False
          = (r2, h2, ev2)"
    by (cases "handle_decision_point fresh_handler workday_page_no_links workday_point False")
       auto
  have s2: "selected_option_definition fresh_handler workday_point False = None"
    by code_simp
  have 2: "\<not> r2 \<and> h2 = fresh_handler \<and> ev2 = []"
    using C10_preference_written_only_after_click[OF t2] s2 by blast
  obtain r3 h3 ev3 where
    t3: "handle_decision_point fresh_handler workday_page_visibility_raises workday_point True
          = (r3, h3, ev3)"
    by (cases "handle_decision_point fresh_handler workday_page_visibility_raises
                 workday_point True")
       auto
  have n3: "\<not> any_wait_fails workday_page_visibility_raises
                (selectors (hd (options workday_point)))"
    by code_simp
  have r3: "\<not> fst (handle_decision_point fresh_handler workday_page_visibility_raises
                     workday_point True)"
    by code_simp
  then have "\<not> r3" using t3 by simp
  then have 3: "h3 = fresh_handler \<and> ev3 = []"
    using C10_preference_written_only_after_click[OF t3] s n3 by blast
  obtain r4 h4 ev4 where
    t4: "handle_decision_point fresh_handler workday_page_no_heading workday_point True
          = (r4, h4, ev4)"
    by (cases "handle_decision_point fresh_handler workday_page_no_heading workday_point True")
       auto
  have "fst (handle_decision_point fresh_handler workday_page_no_heading workday_point True)"
    by code_simp
  then have r4: r4 using t4 by simp
  have 4: "ev4 \<noteq> [] \<and> h4 = replay fresh_handler ev4 \<and>
        stores_follow_clicks workday_page_no_heading (selectors (hd (options workday_point)))
          (dp_name workday_point) (opt_name (hd (options workday_point))) ev4"
    using C10_preference_written_only_after_click[OF t4] s r4 by blast
  show ?thesis using t 1 t2 2 t3 3 \<open>\<not> r3\<close> t4 4 r4 by simp
qed

text \<open>
  Inside \<open>handle_decision_point\<close> a stored, non-empty choice that names an option is selected
  whatever the preferred flags and \<open>auto_select\<close> are; the default is used only otherwise.
\<close>

lemma stored_preference_selected:
  assumes "get_stored_decision h (dp_name dp) = Some s" and "s \<noteq> []"
    and "option_named s (options dp) = Some od"
  shows "selected_option_definition h dp auto_select = Some od"
  using assms by (simp add: selected_option_definition_def)

lemma no_stored_preference_default:
  assumes "get_stored_decision h (dp_name dp) = None \<or>
           get_stored_decision h (dp_name dp) = Some [] \<or>
           (\<exists>s. get_stored_decision h (dp_name dp) = Some s \<and>
                option_named s (options dp) = None)"
  shows "selected_option_definition h dp auto_select
           = (if auto_select then preferred_option (options dp) else None)"
  using assms by (auto simp: selected_option_definition_def)

text \<open>
  C4 says that the stored choice is selected also through
  \<open>check_and_handle_decision_points\<close>. With "apply manually" stored for the Workday point, on
  a page that shows the heading and both links, \<open>handle_decision_point\<close> clicks the manual
  link, but \<open>check_and_handle_decision_points\<close> clicks the autofill link: the hard-coded
  handler runs first and never reads the store.
\<close>

theorem C4_public_path_ignores_stored_preference:
  "get_stored_decision manual_handler (dp_name workday_point) = Some ''apply_manually_workday'' \<and>
   map_option opt_name (option_named ''apply_manually_workday'' (options workday_point))
     = Some ''apply_manually_workday'' \<and>
   detect_decision_point manual_handler workday_page = Some workday_point \<and>
   handle_decision_point manual_handler workday_page workday_point True
     = (True, manual_handler, [Clicked ''a[data-automation-id='applyManually']'' 0,
          Stored ''workday_application_method_selection'' ''apply_manually_workday'']) \<and>
   check_and_handle_decision_points workday_page manual_handler
     = (True, manual_handler, [Clicked ''a[data-automation-id='autofillWithResume']'' 0])"
  by code_simp

end
